theory Spec2Isabelle
  imports Main
begin

section \<open>Record entity model (src/types/index.ts)\<close>

text \<open>
  An optional property \<^verbatim>\<open>f?: T\<close> of a stored object is an \<open>option\<close>: \<open>None\<close> is what a
  read of the property gives when it is not set (JavaScript's \<^verbatim>\<open>undefined\<close>).
  \<^verbatim>\<open>imageUrl: string | null\<close> is an \<open>option\<close> too, with \<open>None\<close> for \<^verbatim>\<open>null\<close>.
  The timestamps are \<^verbatim>\<open>Date.now()\<close> readings: whole milliseconds since the epoch.
  The field \<^verbatim>\<open>id\<close> is called \<open>record_id\<close>, since \<open>id\<close> is HOL's identity function.
\<close>

record VinylData =
  artistName :: string
  albumName :: string
  serialNumber :: string
  matrixRunout :: string
  year :: "int option"
  country :: "string option"
  genre :: "string list option"
  style :: "string list option"
  label :: "string option"
  format :: "string option"
  discogsId :: "int option"
  discogsUrl :: "string option"

record VinylRecord = VinylData +
  record_id :: string
  imageUrl :: "string option"
  createdAt :: nat
  updatedAt :: nat

text \<open>
  \<^verbatim>\<open>Partial<VinylData>\<close>: every property may be missing from the object. The outer
  \<open>option\<close> says whether the object names the property. For the eight optional
  properties of \<^verbatim>\<open>VinylData\<close> the named value may itself be \<^verbatim>\<open>undefined\<close>
  (\<open>Some None\<close>), which is what an object spread then writes. For the four mandatory
  text properties the model follows the declared type of \<^verbatim>\<open>VinylRecord\<close>, where they are
  strings: a named property carries a string.
\<close>

record Partial_VinylData =
  p_artistName :: "string option"
  p_albumName :: "string option"
  p_serialNumber :: "string option"
  p_matrixRunout :: "string option"
  p_year :: "int option option"
  p_country :: "string option option"
  p_genre :: "string list option option"
  p_style :: "string list option option"
  p_label :: "string option option"
  p_format :: "string option option"
  p_discogsId :: "int option option"
  p_discogsUrl :: "string option option"

text \<open>\<^verbatim>\<open>Partial<VinylData> & { imageUrl?: string }\<close>, the parameter of \<^verbatim>\<open>createRecord\<close>.\<close>

record RecordInput = Partial_VinylData +
  p_imageUrl :: "string option"

text \<open>Reading a property: a missing property and one set to \<^verbatim>\<open>undefined\<close> read alike.\<close>

definition read_prop :: "'a option option \<Rightarrow> 'a option" where
  "read_prop p = (case p of None \<Rightarrow> None | Some v \<Rightarrow> v)"

text \<open>
  JavaScript's \<^verbatim>\<open>a || b\<close> on a string-or-undefined \<open>a\<close>: \<^verbatim>\<open>undefined\<close> and the empty
  string are falsy and give \<open>b\<close>.
\<close>

definition or_string :: "string option \<Rightarrow> string \<Rightarrow> string" where
  "or_string a b = (case a of None \<Rightarrow> b | Some s \<Rightarrow> if s = [] then b else s)"

definition or_option :: "string option \<Rightarrow> string option \<Rightarrow> string option" where
  "or_option a b = (case a of None \<Rightarrow> b | Some s \<Rightarrow> if s = [] then b else Some s)"

text \<open>
  The argument of \<^verbatim>\<open>updateRecord\<close> is declared \<^verbatim>\<open>Partial<VinylData>\<close>. TypeScript checks
  the properties that the type names and lets the object carry others: a whole
  \<^verbatim>\<open>VinylRecord\<close> is assignable to it. The spread in \<^verbatim>\<open>updateRecord\<close> copies every
  property the object carries, so the argument is modelled with the four other
  properties of \<^verbatim>\<open>VinylRecord\<close> as well, each of them possibly missing and, when named,
  of its declared type (\<open>Some None\<close> for an \<open>imageUrl\<close> that is \<^verbatim>\<open>null\<close>). Properties
  of any other name would be copied too; no operation reads them, and the record view
  has no place for them.
\<close>

record Updates_Object = Partial_VinylData +
  u_id :: "string option"
  u_imageUrl :: "string option option"
  u_createdAt :: "nat option"
  u_updatedAt :: "nat option"

section \<open>Thrown values\<close>

text \<open>
  \<open>Err name message\<close> is an instance of JavaScript's \<^verbatim>\<open>Error\<close> whose class is \<open>name\<close>
  (\<^verbatim>\<open>new Error(m)\<close> is \<open>Err ''Error'' m\<close>). \<open>Engine name\<close> is an \<^verbatim>\<open>Error\<close> of class
  \<open>name\<close> that the JavaScript engine raises itself, as the \<^verbatim>\<open>TypeError\<close> for a property
  read on \<^verbatim>\<open>null\<close> or a call of something that is no function; its message text differs
  between engines and is left out. \<open>Non_Error\<close> is a thrown value that is no instance
  of \<^verbatim>\<open>Error\<close>.
\<close>

datatype thrown =
    Err (err_name: string) (err_message: string)
  | Engine (err_name: string)
  | Non_Error

abbreviation Error :: "string \<Rightarrow> thrown" where
  "Error m \<equiv> Err ''Error'' m"

definition instanceof_Error :: "thrown \<Rightarrow> bool" where
  "instanceof_Error e = (case e of Err _ _ \<Rightarrow> True | Engine _ \<Rightarrow> True | Non_Error \<Rightarrow> False)"

section \<open>JavaScript values read from JSON\<close>

subsection \<open>Numbers and their text\<close>

text \<open>
  \<open>decimal\<close> is the text of a non-negative whole number below \<open>10^21\<close>, as a template
  literal prints it; it is used for clock readings and HTTP status codes only.
\<close>

definition digit :: "nat \<Rightarrow> char" where
  "digit d = ''0123456789'' ! d"

function decimal :: "nat \<Rightarrow> string" where
  "decimal n = (if n < 10 then [digit n] else decimal (n div 10) @ [digit (n mod 10)])"
  by pat_completeness auto
termination
  by (relation "measure (\<lambda>n. n)") auto

declare decimal.simps [simp del]

text \<open>
  A number that is only printed or tested for truth is given by the text that printing
  it produces (\<^verbatim>\<open>String(n)\<close>, \<^verbatim>\<open>n.toString()\<close>, a template literal): zero and minus zero
  print as \<^verbatim>\<open>0\<close>, other whole numbers below \<open>10^21\<close> print their digits, larger numbers
  and fractions print in the shortest form the engine finds. No arithmetic is done on
  such a number.
\<close>

datatype number = Number (printed: string)

subsection \<open>JSON values\<close>

text \<open>
  A value that \<^verbatim>\<open>JSON.parse\<close> or \<^verbatim>\<open>response.json()\<close> produces. An object keeps its
  members in text order; a repeated key reads as its last member.
\<close>

datatype json =
    JNull
  | JBool bool
  | JNum number
  | JStr string
  | JArr "json list"
  | JObj "(string \<times> json) list"

fun join :: "string \<Rightarrow> string list \<Rightarrow> string" where
  "join sep [] = []"
| "join sep [x] = x"
| "join sep (x # y # ys) = x @ sep @ join sep (y # ys)"

text \<open>Evaluating a list of steps in order; the first throw ends the evaluation.\<close>

fun sequence :: "(thrown + 'a) list \<Rightarrow> thrown + 'a list" where
  "sequence [] = Inr []"
| "sequence (x # xs) =
     (case x of
        Inl e \<Rightarrow> Inl e
      | Inr v \<Rightarrow> (case sequence xs of Inl e \<Rightarrow> Inl e | Inr vs \<Rightarrow> Inr (v # vs)))"

text \<open>
  \<^verbatim>\<open>String(v)\<close>, which a template literal applies. An array joins the texts of its
  elements with commas, a \<^verbatim>\<open>null\<close> element giving the empty text. An object is
  converted through its \<^verbatim>\<open>toString\<close> and \<^verbatim>\<open>valueOf\<close>: with the inherited
  \<^verbatim>\<open>toString\<close> it prints as \<^verbatim>\<open>[object Object]\<close>; a member of its own called
  \<^verbatim>\<open>toString\<close> hides the inherited one and, being data, cannot be called, and
  \<^verbatim>\<open>valueOf\<close> then yields no primitive either, so the conversion throws a
  \<^verbatim>\<open>TypeError\<close>.
\<close>

fun to_String :: "json \<Rightarrow> thrown + string" where
  "to_String JNull = Inr ''null''"
| "to_String (JBool b) = Inr (if b then ''true'' else ''false'')"
| "to_String (JNum k) = Inr (printed k)"
| "to_String (JStr s) = Inr s"
| "to_String (JArr vs) =
     (case sequence (map (\<lambda>v. if v = JNull then Inr [] else to_String v) vs) of
        Inl e \<Rightarrow> Inl e
      | Inr texts \<Rightarrow> Inr (join '','' texts))"
| "to_String (JObj ms) =
     (if ''toString'' \<in> fst ` set ms then Inl (Engine ''TypeError'')
      else Inr ''[object Object]'')"

text \<open>
  \<^verbatim>\<open>v.message\<close>: reading a property of \<^verbatim>\<open>null\<close> throws a \<^verbatim>\<open>TypeError\<close>; an object gives
  its member or \<^verbatim>\<open>undefined\<close> (\<open>None\<close>); every other value has no such property.
\<close>

definition get_message :: "json \<Rightarrow> thrown + json option" where
  "get_message v =
     (case v of
        JNull \<Rightarrow> Inl (Engine ''TypeError'')
      | JObj ms \<Rightarrow> Inr (map_of (rev ms) ''message'')
      | _ \<Rightarrow> Inr None)"

text \<open>
  Truthiness of a value: \<^verbatim>\<open>null\<close>, \<^verbatim>\<open>false\<close>, zero and the empty string are falsy
  (\<^verbatim>\<open>NaN\<close> is no JSON value).
\<close>

definition truthy :: "json \<Rightarrow> bool" where
  "truthy v =
     (case v of
        JNull \<Rightarrow> False
      | JBool b \<Rightarrow> b
      | JNum k \<Rightarrow> printed k \<noteq> ''0''
      | JStr s \<Rightarrow> s \<noteq> []
      | _ \<Rightarrow> True)"

text \<open>
  \<^verbatim>\<open>${errorData.message || ''}\<close> once the property has been read: \<^verbatim>\<open>undefined\<close>
  (\<open>None\<close>) is falsy as well, and a truthy value is printed, which may throw.
\<close>

definition message_or_empty :: "json option \<Rightarrow> thrown + string" where
  "message_or_empty m =
     (case m of
        None \<Rightarrow> Inr []
      | Some v \<Rightarrow> if truthy v then to_String v else Inr [])"

section \<open>The backing store (AsyncStorage, one slot under \<^verbatim>\<open>'vinyl_records'\<close>)\<close>

text \<open>
  What \<^verbatim>\<open>JSON.parse\<close> makes of the stored text is either an array or a value of
  another kind. Of an array the program uses the elements one by one, and of an
  element it reads the property \<^verbatim>\<open>id\<close> and nothing else. \<open>Rec r\<close> is an element that is
  an object with exactly the properties of the record \<open>r\<close>, each of its declared type.
  \<open>Foreign v\<close> is any other element, given as the JSON value it is. \<open>Patched e u now\<close>
  is the object \<^verbatim>\<open>{ ...e, ...u, updatedAt: now }\<close> that an update builds from an element
  \<open>e\<close> that is no such record.
\<close>

datatype element =
    Rec VinylRecord
  | Foreign json
  | Patched element Updates_Object nat

text \<open>A parsed value that is no array: \<^verbatim>\<open>null\<close>, a boolean, a number, a string or an object.\<close>

datatype scalar =
    Null_value
  | Bool_value bool
  | Number_value number
  | String_value string
  | Object_value "(string \<times> json) list"

datatype parsed = Elements "element list" | Scalar scalar

text \<open>The sequence of well-formed records \<open>rs\<close>, as the value the program holds.\<close>

abbreviation Records :: "VinylRecord list \<Rightarrow> parsed" where
  "Records rs \<equiv> Elements (map Rec rs)"

text \<open>
  The text held in the slot, by what the source does with it: \<open>Blank\<close> is the empty
  string (falsy, so never parsed), \<open>Garbage\<close> a text on which \<^verbatim>\<open>JSON.parse\<close> throws,
  \<open>Array_text es\<close> the JSON text of the array with the elements \<open>es\<close>, which is what
  \<^verbatim>\<open>JSON.stringify\<close> writes for such an array and what \<^verbatim>\<open>JSON.parse\<close> reads back, and
  \<open>Scalar_text v\<close> the JSON text of a value that is no array. \<open>item = None\<close> is a slot
  never written (\<^verbatim>\<open>getItem\<close> resolves to \<^verbatim>\<open>null\<close>). The two flags say whether the
  platform rejects a read or a write; a rejected write leaves the slot as it was.
\<close>

datatype stored_text = Blank | Garbage | Array_text "element list" | Scalar_text scalar

record AsyncStorage =
  item :: "stored_text option"
  getItem_rejects :: bool
  setItem_rejects :: bool

text \<open>Library calls whose thrown value the source only logs: \<open>None\<close> is a throw.\<close>

definition getItem :: "AsyncStorage \<Rightarrow> stored_text option option" where
  "getItem st = (if getItem_rejects st then None else Some (item st))"

definition setItem :: "stored_text \<Rightarrow> AsyncStorage \<Rightarrow> AsyncStorage option" where
  "setItem t st = (if setItem_rejects st then None else Some (st\<lparr>item := Some t\<rparr>))"

definition JSON_parse :: "stored_text \<Rightarrow> parsed option" where
  "JSON_parse t =
     (case t of
        Blank \<Rightarrow> None
      | Garbage \<Rightarrow> None
      | Array_text es \<Rightarrow> Some (Elements es)
      | Scalar_text v \<Rightarrow> Some (Scalar v))"

definition JSON_stringify :: "element list \<Rightarrow> stored_text" where
  "JSON_stringify es = Array_text es"

section \<open>Collection store (src/utils/api.ts)\<close>

text \<open>
  The body of the \<^verbatim>\<open>try\<close> block of \<^verbatim>\<open>getStoredRecords\<close>:
  \<^verbatim>\<open>stored ? JSON.parse(stored) : []\<close>; \<open>None\<close> when something in it throws.
\<close>

definition getStoredRecords_try :: "AsyncStorage \<Rightarrow> parsed option" where
  "getStoredRecords_try st =
     (case getItem st of
        None \<Rightarrow> None
      | Some stored \<Rightarrow>
          (case stored of
             None \<Rightarrow> Some (Elements [])
           | Some t \<Rightarrow> if t = Blank then Some (Elements []) else JSON_parse t))"

text \<open>
  The \<^verbatim>\<open>catch\<close> logs and returns the empty array. \<open>Inl\<close> would be a rejection. The
  parsed value is returned as it is, array or not: the declared result type
  \<^verbatim>\<open>VinylRecord[]\<close> is not checked.
\<close>

definition getStoredRecords :: "AsyncStorage \<Rightarrow> thrown + parsed" where
  "getStoredRecords st =
     (case getStoredRecords_try st of
        None \<Rightarrow> Inr (Elements [])
      | Some v \<Rightarrow> Inr v)"

definition saveRecords :: "element list \<Rightarrow> AsyncStorage \<Rightarrow> (thrown + unit) \<times> AsyncStorage" where
  "saveRecords records st =
     (case setItem (JSON_stringify records) st of
        None \<Rightarrow> (Inl (Error ''Failed to save data''), st)
      | Some st' \<Rightarrow> (Inr (), st'))"

definition getRecords :: "AsyncStorage \<Rightarrow> thrown + parsed" where
  "getRecords st = getStoredRecords st"

subsection \<open>Reading the id of an element\<close>

text \<open>
  The \<^verbatim>\<open>id\<close> an object carries as its own property, \<open>None\<close> for none. A patched object
  has the \<^verbatim>\<open>id\<close> of the updates when they name one, else that of the element spread
  into it; spreading a value that is no object brings no \<^verbatim>\<open>id\<close>.
\<close>

fun own_id :: "element \<Rightarrow> json option" where
  "own_id (Rec r) = Some (JStr (record_id r))"
| "own_id (Foreign v) = (case v of JObj ms \<Rightarrow> map_of (rev ms) ''id'' | _ \<Rightarrow> None)"
| "own_id (Patched e u now) = (case u_id u of Some i \<Rightarrow> Some (JStr i) | None \<Rightarrow> own_id e)"

text \<open>\<^verbatim>\<open>r.id\<close>: on \<^verbatim>\<open>null\<close> the read throws a \<^verbatim>\<open>TypeError\<close>.\<close>

definition read_id :: "element \<Rightarrow> thrown + json option" where
  "read_id e = (if e = Foreign JNull then Inl (Engine ''TypeError'') else Inr (own_id e))"

text \<open>The callbacks \<^verbatim>\<open>r => r.id === id\<close> and \<^verbatim>\<open>r => r.id !== id\<close>.\<close>

definition has_id :: "string \<Rightarrow> element \<Rightarrow> thrown + bool" where
  "has_id i e = (case read_id e of Inl t \<Rightarrow> Inl t | Inr v \<Rightarrow> Inr (v = Some (JStr i)))"


subsection \<open>Array methods with a callback that may throw\<close>

text \<open>
  \<^verbatim>\<open>Array.prototype.find\<close>, \<^verbatim>\<open>findIndex\<close> and \<^verbatim>\<open>filter\<close> call the callback on the elements
  in order; a throw of the callback ends the call. \<^verbatim>\<open>findIndex\<close> gives \<open>-1\<close> when no
  element satisfies the callback.
\<close>

fun find_js :: "('a \<Rightarrow> thrown + bool) \<Rightarrow> 'a list \<Rightarrow> thrown + 'a option" where
  "find_js P [] = Inr None"
| "find_js P (x # xs) =
     (case P x of
        Inl t \<Rightarrow> Inl t
      | Inr b \<Rightarrow> if b then Inr (Some x) else find_js P xs)"

fun findIndex :: "('a \<Rightarrow> thrown + bool) \<Rightarrow> 'a list \<Rightarrow> thrown + int" where
  "findIndex P [] = Inr (-1)"
| "findIndex P (x # xs) =
     (case P x of
        Inl t \<Rightarrow> Inl t
      | Inr b \<Rightarrow>
          if b then Inr 0
          else (case findIndex P xs of
                  Inl t \<Rightarrow> Inl t
                | Inr k \<Rightarrow> if k = -1 then Inr (-1) else Inr (k + 1)))"


subsection \<open>Reading one record\<close>

text \<open>
  On a value that is no array, \<^verbatim>\<open>records.find\<close> is a property read on \<^verbatim>\<open>null\<close> or a
  call of \<^verbatim>\<open>undefined\<close>: a \<^verbatim>\<open>TypeError\<close> either way. The same holds for \<^verbatim>\<open>push\<close>,
  \<^verbatim>\<open>findIndex\<close> and \<^verbatim>\<open>filter\<close> below. An element that is found is an object, hence truthy.
\<close>

definition getRecord :: "string \<Rightarrow> AsyncStorage \<Rightarrow> thrown + element" where
  "getRecord i st =
     (case getStoredRecords st of
        Inl e \<Rightarrow> Inl e
      | Inr records \<Rightarrow>
          (case records of
             Scalar v \<Rightarrow> Inl (Engine ''TypeError'')
           | Elements es \<Rightarrow>
               (case find_js (has_id i) es of
                  Inl e \<Rightarrow> Inl e
                | Inr None \<Rightarrow> Inl (Error ''Record not found'')
                | Inr (Some r) \<Rightarrow> Inr r)))"

subsection \<open>Identifiers\<close>

text \<open>
  \<^verbatim>\<open>`record_${now}_${Math.random().toString(36).substr(2, 9)}`\<close>. \<open>rnd\<close> stands for the
  text \<^verbatim>\<open>Math.random().toString(36)\<close>, such as \<^verbatim>\<open>0.k3j5h1x9q2a\<close>; \<^verbatim>\<open>substr(2, 9)\<close> keeps
  at most nine characters from position two.
\<close>

definition substr :: "nat \<Rightarrow> nat \<Rightarrow> string \<Rightarrow> string" where
  "substr start len s = take len (drop start s)"

definition new_id :: "nat \<Rightarrow> string \<Rightarrow> string" where
  "new_id now rnd = ''record_'' @ decimal now @ ''_'' @ substr 2 9 rnd"

subsection \<open>Mutations\<close>

text \<open>\<open>now\<close> is the reading of \<^verbatim>\<open>Date.now()\<close> made by the call.\<close>

definition newRecord :: "RecordInput \<Rightarrow> nat \<Rightarrow> string \<Rightarrow> VinylRecord" where
  "newRecord record now rnd =
     \<lparr> artistName = or_string (p_artistName record) '''',
       albumName = or_string (p_albumName record) '''',
       serialNumber = or_string (p_serialNumber record) '''',
       matrixRunout = or_string (p_matrixRunout record) '''',
       year = read_prop (p_year record),
       country = read_prop (p_country record),
       genre = read_prop (p_genre record),
       style = read_prop (p_style record),
       label = read_prop (p_label record),
       format = read_prop (p_format record),
       discogsId = read_prop (p_discogsId record),
       discogsUrl = read_prop (p_discogsUrl record),
       record_id = new_id now rnd,
       imageUrl = or_option (p_imageUrl record) None,
       createdAt = now,
       updatedAt = now \<rparr>"

definition createRecord ::
  "RecordInput \<Rightarrow> nat \<Rightarrow> string \<Rightarrow> AsyncStorage \<Rightarrow> (thrown + VinylRecord) \<times> AsyncStorage" where
  "createRecord record now rnd st =
     (case getStoredRecords st of
        Inl e \<Rightarrow> (Inl e, st)
      | Inr records \<Rightarrow>
          (case records of
             Scalar v \<Rightarrow> (Inl (Engine ''TypeError''), st)
           | Elements es \<Rightarrow>
               (case saveRecords (es @ [Rec (newRecord record now rnd)]) st of
                  (Inl e, st') \<Rightarrow> (Inl e, st')
                | (Inr _, st') \<Rightarrow> (Inr (newRecord record now rnd), st'))))"

text \<open>
  \<^verbatim>\<open>{ ...r, ...updates, updatedAt: Date.now() }\<close> on a record: every property that
  \<open>updates\<close> names replaces the record's, the others stay, and \<open>updatedAt\<close> is written
  last, over whatever \<open>updates\<close> says of it.
\<close>

definition spread :: "'a \<Rightarrow> 'a option \<Rightarrow> 'a" where
  "spread old u = (case u of None \<Rightarrow> old | Some v \<Rightarrow> v)"

definition merge_updates :: "VinylRecord \<Rightarrow> Updates_Object \<Rightarrow> nat \<Rightarrow> VinylRecord" where
  "merge_updates r updates now =
     \<lparr> artistName = spread (artistName r) (p_artistName updates),
       albumName = spread (albumName r) (p_albumName updates),
       serialNumber = spread (serialNumber r) (p_serialNumber updates),
       matrixRunout = spread (matrixRunout r) (p_matrixRunout updates),
       year = spread (year r) (p_year updates),
       country = spread (country r) (p_country updates),
       genre = spread (genre r) (p_genre updates),
       style = spread (style r) (p_style updates),
       label = spread (label r) (p_label updates),
       format = spread (format r) (p_format updates),
       discogsId = spread (discogsId r) (p_discogsId updates),
       discogsUrl = spread (discogsUrl r) (p_discogsUrl updates),
       record_id = spread (record_id r) (u_id updates),
       imageUrl = spread (imageUrl r) (u_imageUrl updates),
       createdAt = spread (createdAt r) (u_createdAt updates),
       updatedAt = now \<rparr>"

text \<open>The same object literal on any element: a record stays a record.\<close>

definition patch :: "element \<Rightarrow> Updates_Object \<Rightarrow> nat \<Rightarrow> element" where
  "patch e updates now =
     (case e of
        Rec r \<Rightarrow> Rec (merge_updates r updates now)
      | _ \<Rightarrow> Patched e updates now)"

definition updateRecord ::
  "string \<Rightarrow> Updates_Object \<Rightarrow> nat \<Rightarrow> AsyncStorage \<Rightarrow> (thrown + element) \<times> AsyncStorage" where
  "updateRecord i updates now st =
     (case getStoredRecords st of
        Inl e \<Rightarrow> (Inl e, st)
      | Inr records \<Rightarrow>
          (case records of
             Scalar v \<Rightarrow> (Inl (Engine ''TypeError''), st)
           | Elements es \<Rightarrow>
               (case findIndex (has_id i) es of
                  Inl e \<Rightarrow> (Inl e, st)
                | Inr index \<Rightarrow>
                    if index = -1 then (Inl (Error ''Record not found''), st)
                    else
                      (let es' = es[nat index := patch (es ! nat index) updates now] in
                       case saveRecords es' st of
                         (Inl e, st') \<Rightarrow> (Inl e, st')
                       | (Inr _, st') \<Rightarrow> (Inr (es' ! nat index), st')))))"


text \<open>
  The scenario of several creations in a row: each call has its own input, its own
  \<^verbatim>\<open>Date.now()\<close> reading and its own \<^verbatim>\<open>Math.random()\<close> text, and is awaited
  before the next one starts. The results are kept in call order.
\<close>

fun createRecords ::
  "(RecordInput \<times> nat \<times> string) list \<Rightarrow> AsyncStorage \<Rightarrow> (thrown + VinylRecord) list \<times> AsyncStorage" where
  "createRecords [] st = ([], st)"
| "createRecords ((record, now, rnd) # calls) st =
     (case createRecord record now rnd st of
        (res, st') \<Rightarrow>
          (case createRecords calls st' of
             (ress, st'') \<Rightarrow> (res # ress, st'')))"

section \<open>Metadata lookup client (src/utils/discogs.ts)\<close>

subsection \<open>The network\<close>

text \<open>
  A request is the URL (base and endpoint, then the query parameters in the order they
  were appended), the method and the headers. \<open>respond\<close> is what the outside world
  answers: \<open>Inl e\<close> when \<^verbatim>\<open>fetch\<close> rejects with \<open>e\<close>. \<open>issued\<close> records every
  request handed to \<^verbatim>\<open>fetch\<close>. \<open>json_body\<close> is the outcome of \<^verbatim>\<open>response.json()\<close>.
\<close>

record Request =
  url :: string
  searchParams :: "(string \<times> string) list"
  http_method :: string
  headers :: "(string \<times> string) list"

record Response =
  ok :: bool
  status :: nat
  statusText :: string
  json_body :: "thrown + json"

record Network =
  respond :: "Request \<Rightarrow> thrown + Response"
  issued :: "Request list"

definition fetch :: "Request \<Rightarrow> Network \<Rightarrow> (thrown + Response) \<times> Network" where
  "fetch req net = (respond net req, net\<lparr>issued := issued net @ [req]\<rparr>)"

subsection \<open>The client\<close>

text \<open>The client's state is its token: \<^verbatim>\<open>string | null\<close>, \<open>None\<close> for \<^verbatim>\<open>null\<close>.\<close>

definition baseUrl :: string where
  "baseUrl = ''https://api.discogs.com''"

definition setToken :: "string \<Rightarrow> string option" where
  "setToken token = Some token"

text \<open>\<^verbatim>\<open>!!this.token\<close>: \<^verbatim>\<open>null\<close> and the empty string are falsy.\<close>

definition isConfigured :: "string option \<Rightarrow> bool" where
  "isConfigured token = (case token of None \<Rightarrow> False | Some t \<Rightarrow> t \<noteq> [])"

definition getAuthHeaders :: "string option \<Rightarrow> (string \<times> string) list" where
  "getAuthHeaders token =
     [(''Content-Type'', ''application/json''), (''User-Agent'', ''VinylCollectionApp/1.0'')] @
     (case token of
        None \<Rightarrow> []
      | Some t \<Rightarrow> if t = [] then [] else [(''Authorization'', ''Discogs token='' @ t)])"

text \<open>The \<^verbatim>\<open>try\<close> block of \<^verbatim>\<open>request\<close>, given what \<^verbatim>\<open>fetch\<close> produced.\<close>

definition request_try :: "thrown + Response \<Rightarrow> thrown + json" where
  "request_try fetched =
     (case fetched of
        Inl e \<Rightarrow> Inl e
      | Inr response \<Rightarrow>
          if \<not> ok response then
            (let errorData = (case json_body response of Inl _ \<Rightarrow> JObj [] | Inr v \<Rightarrow> v) in
             case get_message errorData of
               Inl e \<Rightarrow> Inl e
             | Inr m \<Rightarrow>
                 (case message_or_empty m of
                    Inl e \<Rightarrow> Inl e
                  | Inr text_of_message \<Rightarrow>
                      Inl (Error (''Discogs API error: '' @ decimal (status response) @ '' '' @
                                  statusText response @ ''. '' @ text_of_message))))
          else json_body response)"

text \<open>The \<^verbatim>\<open>catch\<close> block: an \<^verbatim>\<open>Error\<close> is thrown again, anything else is replaced.\<close>

definition request_catch :: "thrown + json \<Rightarrow> thrown + json" where
  "request_catch r =
     (case r of
        Inl error \<Rightarrow>
          if instanceof_Error error then Inl error
          else Inl (Error ''Failed to fetch data from Discogs API'')
      | Inr v \<Rightarrow> Inr v)"

text \<open>
  \<open>request\<close> is private to the client. The endpoints it is called with are the three
  below; appended to the fixed base, each begins the path of the URL with a slash, so
  that \<^verbatim>\<open>new URL\<close> accepts it.
\<close>

datatype endpoint = Database_search | Releases number | Masters number

definition endpoint_path :: "endpoint \<Rightarrow> string" where
  "endpoint_path e =
     (case e of
        Database_search \<Rightarrow> ''/database/search''
      | Releases k \<Rightarrow> ''/releases/'' @ printed k
      | Masters k \<Rightarrow> ''/masters/'' @ printed k)"

definition request ::
  "string option \<Rightarrow> endpoint \<Rightarrow> (string \<times> string) list option \<Rightarrow> Network \<Rightarrow> (thrown + json) \<times> Network" where
  "request token endpoint params net =
     (if \<not> isConfigured token then
        (Inl (Error ''Discogs API not configured. Please provide authentication credentials.''), net)
      else
        (let req = \<lparr> url = baseUrl @ endpoint_path endpoint,
                      searchParams = (case params of None \<Rightarrow> [] | Some ps \<Rightarrow> ps),
                      http_method = ''GET'',
                      headers = getAuthHeaders token \<rparr>
         in case fetch req net of
              (fetched, net') \<Rightarrow> (request_catch (request_try fetched), net')))"

datatype search_type = Release | Master | Artist | Label

definition type_text :: "search_type \<Rightarrow> string" where
  "type_text t = (case t of Release \<Rightarrow> ''release'' | Master \<Rightarrow> ''master''
                  | Artist \<Rightarrow> ''artist'' | Label \<Rightarrow> ''label'')"

text \<open>
  An optional parameter with a default: \<open>None\<close> is an argument left out. The page
  numbers and release ids are numbers that are only printed into the URL.
\<close>

definition default_to :: "'a \<Rightarrow> 'a option \<Rightarrow> 'a" where
  "default_to d a = (case a of None \<Rightarrow> d | Some v \<Rightarrow> v)"

definition search ::
  "string option \<Rightarrow> string \<Rightarrow> search_type option \<Rightarrow> number option \<Rightarrow> number option \<Rightarrow> Network
     \<Rightarrow> (thrown + json) \<times> Network" where
  "search token query type page perPage net =
     (let params = [(''q'', query),
                    (''page'', printed (default_to (Number ''1'') page)),
                    (''per_page'', printed (default_to (Number ''20'') perPage))] @
                   (case type of None \<Rightarrow> [] | Some t \<Rightarrow> [(''type'', type_text t)])
      in request token Database_search (Some params) net)"

definition searchRelease ::
  "string option \<Rightarrow> string \<Rightarrow> string \<Rightarrow> number option \<Rightarrow> Network \<Rightarrow> (thrown + json) \<times> Network" where
  "searchRelease token artist album page net =
     search token (artist @ '' '' @ album) (Some Release) (Some (default_to (Number ''1'') page)) None net"

definition getRelease :: "string option \<Rightarrow> number \<Rightarrow> Network \<Rightarrow> (thrown + json) \<times> Network" where
  "getRelease token releaseId net = request token (Releases releaseId) None net"

definition getMasterRelease :: "string option \<Rightarrow> number \<Rightarrow> Network \<Rightarrow> (thrown + json) \<times> Network" where
  "getMasterRelease token masterId net = request token (Masters masterId) None net"

definition searchByBarcode :: "string option \<Rightarrow> string \<Rightarrow> Network \<Rightarrow> (thrown + json) \<times> Network" where
  "searchByBarcode token barcode net =
     request token Database_search (Some [(''barcode'', barcode), (''type'', ''release'')]) net"

definition searchByCatalogNumber ::
  "string option \<Rightarrow> string \<Rightarrow> number option \<Rightarrow> Network \<Rightarrow> (thrown + json) \<times> Network" where
  "searchByCatalogNumber token catno page net =
     request token Database_search
       (Some [(''catno'', catno), (''type'', ''release''), (''page'', printed (default_to (Number ''1'') page))]) net"

section \<open>Orchestration (App.tsx)\<close>

text \<open>
  \<^verbatim>\<open>DiscogsReleaseDetails\<close> as declared in src/utils/discogs.ts. Field names carry a
  prefix, since several are already fields of the record model.
\<close>

record ReleaseArtist =
  artist_name :: string
  artist_anv :: "string option"
  artist_id :: int

record ReleaseLabel =
  label_name :: string
  label_catno :: string
  label_id :: int

record ReleaseFormat =
  format_name :: string
  format_qty :: string
  format_descriptions :: "string list option"

record ReleaseTrack =
  track_position :: string
  track_title :: string
  track_duration :: string

record ReleaseImage =
  image_type :: string
  image_uri :: string
  image_uri150 :: string
  image_width :: int
  image_height :: int

record ReleaseIdentifier =
  identifier_type :: string
  identifier_value :: string

record DiscogsReleaseDetails =
  release_id :: int
  release_title :: string
  release_artists :: "ReleaseArtist list"
  release_year :: "int option"
  release_released :: "string option"
  release_country :: "string option"
  release_labels :: "ReleaseLabel list"
  release_formats :: "ReleaseFormat list"
  release_genres :: "string list option"
  release_styles :: "string list option"
  release_tracklist :: "ReleaseTrack list option"
  release_images :: "ReleaseImage list option"
  release_identifiers :: "ReleaseIdentifier list option"
  release_notes :: "string option"
  release_uri :: "string option"
  release_resource_url :: "string option"

text \<open>\<^verbatim>\<open>xs?.[0]\<close>: the first element, \<^verbatim>\<open>undefined\<close> for an empty array.\<close>

definition first :: "'a list \<Rightarrow> 'a option" where
  "first xs = (case xs of [] \<Rightarrow> None | x # _ \<Rightarrow> Some x)"

text \<open>\<^verbatim>\<open>xs?.[0]\<close> on an array that may itself be \<^verbatim>\<open>undefined\<close>.\<close>

definition first_opt :: "'a list option \<Rightarrow> 'a option" where
  "first_opt xs = (case xs of None \<Rightarrow> None | Some ys \<Rightarrow> first ys)"

text \<open>
  \<^verbatim>\<open>release.identifiers?.find(id => id.type === 'Matrix / Runout')?.value\<close>
\<close>

definition matrix_runout_value :: "DiscogsReleaseDetails \<Rightarrow> string option" where
  "matrix_runout_value release =
     (case release_identifiers release of
        None \<Rightarrow> None
      | Some ids \<Rightarrow>
          map_option identifier_value
            (find (\<lambda>i. identifier_type i = ''Matrix / Runout'') ids))"

text \<open>
  \<^verbatim>\<open>release.images?.[0]?.uri || release.images?.[0]?.uri150 || undefined\<close>
\<close>

definition coverImageUrl :: "DiscogsReleaseDetails \<Rightarrow> string option" where
  "coverImageUrl release =
     or_option
       (or_option (map_option image_uri (first_opt (release_images release)))
                  (map_option image_uri150 (first_opt (release_images release))))
       None"

text \<open>
  The object handed to \<^verbatim>\<open>api.createRecord\<close>: \<^verbatim>\<open>{ ...vinylData, imageUrl: coverImageUrl }\<close>.
  The object literal names all twelve data properties, some with the value
  \<^verbatim>\<open>undefined\<close>.
\<close>

definition release_input :: "DiscogsReleaseDetails \<Rightarrow> RecordInput" where
  "release_input release =
     \<lparr> p_artistName = Some (or_string (map_option artist_name (first (release_artists release))) ''''),
       p_albumName = Some (or_string (Some (release_title release)) ''''),
       p_serialNumber = Some (or_string (map_option label_catno (first (release_labels release))) ''''),
       p_matrixRunout = Some (or_string (matrix_runout_value release) ''''),
       p_year = Some (release_year release),
       p_country = Some (release_country release),
       p_genre = Some (release_genres release),
       p_style = Some (release_styles release),
       p_label = Some (map_option label_name (first (release_labels release))),
       p_format = Some (map_option format_name (first (release_formats release))),
       p_discogsId = Some (Some (release_id release)),
       p_discogsUrl = Some (release_uri release),
       p_imageUrl = coverImageUrl release \<rparr>"

text \<open>
  \<^verbatim>\<open>handleSelectRelease\<close>: the record is created, and the handler reports the outcome
  in an alert (title and text) instead of raising. The component state it also
  touches (the saving flag, the reloaded list) is presentation and is left out.
\<close>

definition handleSelectRelease ::
  "DiscogsReleaseDetails \<Rightarrow> nat \<Rightarrow> string \<Rightarrow> AsyncStorage \<Rightarrow> (string \<times> string) \<times> AsyncStorage" where
  "handleSelectRelease release now rnd st =
     (case createRecord (release_input release) now rnd st of
        (Inl e, st') \<Rightarrow> ((''Error'', ''Failed to add record to collection''), st')
      | (Inr r, st') \<Rightarrow> ((''Success'', ''Record added to collection!''), st'))"

section \<open>Example values\<close>

text \<open>Concrete stores, inputs and answers at which the theorems below are instantiated.\<close>

definition store_empty :: AsyncStorage where
  "store_empty = \<lparr> item = None, getItem_rejects = False, setItem_rejects = False \<rparr>"

definition rec_a :: VinylRecord where
  "rec_a =
     \<lparr> artistName = ''A'', albumName = ''First'', serialNumber = ''S-1'', matrixRunout = '''',
       year = None, country = Some ''US'', genre = None, style = None, label = None,
       format = None, discogsId = None, discogsUrl = None,
       record_id = ''record_1000_abc'', imageUrl = Some ''file:///a.jpg'',
       createdAt = 1000, updatedAt = 1000 \<rparr>"

definition rec_b :: VinylRecord where
  "rec_b =
     \<lparr> artistName = ''B'', albumName = ''Second'', serialNumber = '''', matrixRunout = '''',
       year = Some 1971, country = None, genre = Some [''Rock''], style = None, label = None,
       format = None, discogsId = None, discogsUrl = None,
       record_id = ''record_1500_def'', imageUrl = None,
       createdAt = 1500, updatedAt = 1600 \<rparr>"

definition store_ab :: AsyncStorage where
  "store_ab =
     \<lparr> item = Some (Array_text [Rec rec_a, Rec rec_b]),
       getItem_rejects = False, setItem_rejects = False \<rparr>"

definition store_garbage :: AsyncStorage where
  "store_garbage = \<lparr> item = Some Garbage, getItem_rejects = False, setItem_rejects = False \<rparr>"

text \<open>The slot holding the JSON text \<^verbatim>\<open>null\<close>.\<close>

definition store_null :: AsyncStorage where
  "store_null =
     \<lparr> item = Some (Scalar_text Null_value), getItem_rejects = False, setItem_rejects = False \<rparr>"


definition input_a :: RecordInput where
  "input_a =
     \<lparr> p_artistName = Some ''Miles Davis'', p_albumName = Some ''Kind of Blue'',
       p_serialNumber = None, p_matrixRunout = None,
       p_year = Some (Some 1959), p_country = None, p_genre = Some (Some [''Jazz'']),
       p_style = None, p_label = Some None, p_format = None,
       p_discogsId = None, p_discogsUrl = None,
       p_imageUrl = Some ''file:///cover.jpg'' \<rparr>"

definition input_blank_image :: RecordInput where
  "input_blank_image =
     \<lparr> p_artistName = Some ''Miles Davis'', p_albumName = Some ''Kind of Blue'',
       p_serialNumber = None, p_matrixRunout = None,
       p_year = None, p_country = None, p_genre = None,
       p_style = None, p_label = None, p_format = None,
       p_discogsId = None, p_discogsUrl = None,
       p_imageUrl = Some '''' \<rparr>"

text \<open>The updates \<^verbatim>\<open>{ year: 1999 }\<close>.\<close>

definition updates_year :: Updates_Object where
  "updates_year =
     \<lparr> p_artistName = None, p_albumName = None, p_serialNumber = None, p_matrixRunout = None,
       p_year = Some (Some 1999), p_country = None, p_genre = None,
       p_style = None, p_label = None, p_format = None,
       p_discogsId = None, p_discogsUrl = None,
       u_id = None, u_imageUrl = None, u_createdAt = None, u_updatedAt = None \<rparr>"

text \<open>
  Updates that are a whole record, as when a caller hands over a record it holds: the
  object names every property that the record \<open>rec_b\<close> has.
\<close>

definition updates_whole_record :: Updates_Object where
  "updates_whole_record =
     \<lparr> p_artistName = Some ''B'', p_albumName = Some ''Second'',
       p_serialNumber = Some '''', p_matrixRunout = Some '''',
       p_year = Some (Some 1971), p_country = None, p_genre = Some (Some [''Rock'']),
       p_style = None, p_label = None, p_format = None,
       p_discogsId = None, p_discogsUrl = None,
       u_id = Some ''record_1500_def'', u_imageUrl = Some None,
       u_createdAt = Some 1500, u_updatedAt = Some 1600 \<rparr>"

text \<open>
  Networks: one where \<^verbatim>\<open>fetch\<close> rejects with the \<^verbatim>\<open>TypeError\<close> the platform raises when
  no connection can be made, one where it rejects with a value that is no
  \<^verbatim>\<open>Error\<close>, and two that answer every request with a 404 response, the first with a
  JSON body carrying a message, the second with a body that is not JSON.
\<close>

definition net_down :: Network where
  "net_down = \<lparr> respond = (\<lambda>req. Inl (Err ''TypeError'' ''Network request failed'')), issued = [] \<rparr>"

definition net_odd :: Network where
  "net_odd = \<lparr> respond = (\<lambda>req. Inl Non_Error), issued = [] \<rparr>"

definition response_404 :: Response where
  "response_404 =
     \<lparr> ok = False, status = 404, statusText = ''Not Found'',
       json_body = Inr (JObj [(''message'', JStr ''Release not found.'')]) \<rparr>"

definition response_404_html :: Response where
  "response_404_html =
     \<lparr> ok = False, status = 404, statusText = ''Not Found'',
       json_body = Inl (Err ''SyntaxError'' ''JSON Parse error: Unexpected token: <'') \<rparr>"

definition net_404 :: Network where
  "net_404 = \<lparr> respond = (\<lambda>req. Inr response_404), issued = [] \<rparr>"

definition net_404_html :: Network where
  "net_404_html = \<lparr> respond = (\<lambda>req. Inr response_404_html), issued = [] \<rparr>"

text \<open>
  Two more 404 answers: one whose body is the JSON text \<^verbatim>\<open>null\<close>, one whose
  \<^verbatim>\<open>message\<close> is the object \<^verbatim>\<open>{"toString": 1}\<close>.
\<close>

definition net_404_null :: Network where
  "net_404_null =
     \<lparr> respond = (\<lambda>req. Inr \<lparr> ok = False, status = 404, statusText = ''Not Found'',
                                json_body = Inr JNull \<rparr>),
       issued = [] \<rparr>"

definition net_404_object :: Network where
  "net_404_object =
     \<lparr> respond = (\<lambda>req. Inr \<lparr> ok = False, status = 404, statusText = ''Not Found'',
                                json_body = Inr (JObj [(''message'',
                                   JObj [(''toString'', JNum (Number ''1''))])]) \<rparr>),
       issued = [] \<rparr>"

text \<open>A release as the detail endpoint describes it, and one with nothing but a title.\<close>

definition kind_of_blue :: DiscogsReleaseDetails where
  "kind_of_blue =
     \<lparr> release_id = 249504,
       release_title = ''Kind of Blue'',
       release_artists = [\<lparr> artist_name = ''Miles Davis'', artist_anv = None, artist_id = 23755 \<rparr>],
       release_year = Some 1959,
       release_released = Some ''1959-08-17'',
       release_country = Some ''US'',
       release_labels = [\<lparr> label_name = ''Columbia'', label_catno = ''CL 1355'', label_id = 1866 \<rparr>],
       release_formats = [\<lparr> format_name = ''Vinyl'', format_qty = ''1'',
                           format_descriptions = Some [''LP'', ''Album''] \<rparr>],
       release_genres = Some [''Jazz''],
       release_styles = Some [''Modal''],
       release_tracklist = None,
       release_images = Some [\<lparr> image_type = ''primary'', image_uri = '''',
                                image_uri150 = ''https://img.example/150.jpg'',
                                image_width = 600, image_height = 600 \<rparr>],
       release_identifiers = Some [\<lparr> identifier_type = ''Barcode'', identifier_value = ''0 7464'' \<rparr>,
                                   \<lparr> identifier_type = ''Matrix / Runout'', identifier_value = ''XLP 47324'' \<rparr>,
                                   \<lparr> identifier_type = ''Matrix / Runout'', identifier_value = ''XLP 47325'' \<rparr>],
       release_notes = None,
       release_uri = Some ''https://www.discogs.com/release/249504'',
       release_resource_url = None \<rparr>"

section \<open>Auxiliary facts\<close>

subsection \<open>Reading and writing the slot\<close>

lemma getStoredRecords_Inr:
  "getStoredRecords st =
     Inr (if getItem_rejects st then Elements []
          else (case item st of
                  Some (Array_text es) \<Rightarrow> Elements es
                | Some (Scalar_text v) \<Rightarrow> Scalar v
                | _ \<Rightarrow> Elements []))"
  by (simp add: getStoredRecords_def getStoredRecords_try_def getItem_def JSON_parse_def
           split: option.splits stored_text.splits)

lemma saveRecords_eq:
  "saveRecords records st =
     (if setItem_rejects st then (Inl (Error ''Failed to save data''), st)
      else (Inr (), st\<lparr>item := Some (Array_text records)\<rparr>))"
  by (simp add: saveRecords_def setItem_def JSON_stringify_def)

lemma getStoredRecords_after_write:
  "\<not> getItem_rejects st \<Longrightarrow> getStoredRecords (st\<lparr>item := Some (Array_text es)\<rparr>) = Inr (Elements es)"
  by (simp add: getStoredRecords_Inr)

lemma getStoredRecords_written:
  "getStoredRecords (st\<lparr>item := Some (Array_text es)\<rparr>) =
     Inr (Elements (if getItem_rejects st then [] else es))"
  by (simp add: getStoredRecords_Inr)

lemma rejected_read_empty:
  "getStoredRecords st = Inr (Elements es) \<Longrightarrow> getItem_rejects st \<Longrightarrow> es = []"
  by (simp add: getStoredRecords_Inr)

lemma map_Rec_eq: "map Rec xs = map Rec ys \<longleftrightarrow> xs = ys"
  by (simp add: inj_map_eq_map inj_on_def)

subsection \<open>The array methods on a sequence of records\<close>

lemma has_id_Rec: "has_id i (Rec r) = Inr (record_id r = i)"
  by (simp add: has_id_def read_id_def)


lemma find_js_Recs:
  "find_js (has_id i) (map Rec rs) = Inr (map_option Rec (find (\<lambda>r. record_id r = i) rs))"
  by (induction rs) (simp_all add: has_id_Rec)


lemma findIndex_Recs_none:
  "find (\<lambda>r. record_id r = i) rs = None \<Longrightarrow> findIndex (has_id i) (map Rec rs) = Inr (-1)"
  by (induction rs) (simp_all add: has_id_Rec split: if_splits)

lemma findIndex_Recs_some:
  "find (\<lambda>r. record_id r = i) rs = Some r \<Longrightarrow>
   findIndex (has_id i) (map Rec rs) = Inr (int (length (takeWhile (\<lambda>q. record_id q \<noteq> i) rs)))"
proof (induction rs)
  case Nil
  then show ?case by simp
next
  case (Cons a rs)
  show ?case
  proof (cases "record_id a = i")
    case True
    then show ?thesis by (simp add: has_id_Rec)
  next
    case False
    with Cons.prems have "find (\<lambda>r. record_id r = i) rs = Some r" by simp
    from Cons.IH [OF this] False show ?thesis by (simp add: has_id_Rec)
  qed
qed

lemma first_position:
  "find (\<lambda>r. record_id r = i) rs = Some r \<Longrightarrow>
   length (takeWhile (\<lambda>q. record_id q \<noteq> i) rs) < length rs \<and>
   rs ! length (takeWhile (\<lambda>q. record_id q \<noteq> i) rs) = r \<and>
   (\<forall>j < length (takeWhile (\<lambda>q. record_id q \<noteq> i) rs). record_id (rs ! j) \<noteq> i)"
proof (induction rs)
  case Nil
  then show ?case by simp
next
  case (Cons a rs)
  show ?case
  proof (cases "record_id a = i")
    case True
    with Cons.prems show ?thesis by simp
  next
    case False
    with Cons.prems have f: "find (\<lambda>r. record_id r = i) rs = Some r" by simp
    from Cons.IH [OF f] have ih:
      "length (takeWhile (\<lambda>q. record_id q \<noteq> i) rs) < length rs"
      "rs ! length (takeWhile (\<lambda>q. record_id q \<noteq> i) rs) = r"
      "\<forall>j < length (takeWhile (\<lambda>q. record_id q \<noteq> i) rs). record_id (rs ! j) \<noteq> i"
      by simp_all
    have "\<forall>j < Suc (length (takeWhile (\<lambda>q. record_id q \<noteq> i) rs)). record_id ((a # rs) ! j) \<noteq> i"
    proof (intro allI impI)
      fix j assume "j < Suc (length (takeWhile (\<lambda>q. record_id q \<noteq> i) rs))"
      then show "record_id ((a # rs) ! j) \<noteq> i"
        using False ih(3) by (cases j) simp_all
    qed
    then show ?thesis using False ih(1) ih(2) by simp
  qed
qed

lemma find_append_fresh:
  "find P rs = None \<Longrightarrow> P r \<Longrightarrow> find P (rs @ [r]) = Some r"
  by (induction rs) (auto split: if_splits)

lemma count_list_fresh: "r \<notin> set rs \<Longrightarrow> count_list (rs @ [r]) r = 1"
  by (simp add: count_list_0_iff)




subsection \<open>Identifiers\<close>

lemma digit_inj: "a < 10 \<Longrightarrow> b < 10 \<Longrightarrow> digit a = digit b \<Longrightarrow> a = b"
proof -
  assume a: "a < 10" and b: "b < 10" and e: "digit a = digit b"
  have A: "a \<in> {0, 1, 2, 3, 4, 5, 6, 7, 8, 9}" using a by auto
  have B: "b \<in> {0, 1, 2, 3, 4, 5, 6, 7, 8, 9}" using b by auto
  show ?thesis using A B e by (auto simp: digit_def)
qed

lemma digit_not_underscore: "d < 10 \<Longrightarrow> digit d \<noteq> CHR ''_''"
proof -
  assume d: "d < 10"
  have D: "d \<in> {0, 1, 2, 3, 4, 5, 6, 7, 8, 9}" using d by auto
  show ?thesis using D by (auto simp: digit_def)
qed

lemma decimal_not_Nil: "decimal n \<noteq> []"
  by (subst decimal.simps) simp

lemma underscore_notin_decimal: "CHR ''_'' \<notin> set (decimal n)"
proof (induction n rule: decimal.induct)
  case (1 n)
  show ?case
  proof (cases "n < 10")
    case True
    then show ?thesis
      using digit_not_underscore [of n] by (subst decimal.simps) auto
  next
    case False
    then show ?thesis
      using 1 digit_not_underscore [of "n mod 10"] by (subst decimal.simps) auto
  qed
qed

lemma decimal_inj: "decimal n = decimal m \<Longrightarrow> n = m"
proof (induction n arbitrary: m rule: decimal.induct)
  case (1 n)
  show ?case
  proof (cases "n < 10")
    case small_n: True
    show ?thesis
    proof (cases "m < 10")
      case True
      with small_n "1.prems" show ?thesis
        by (simp add: decimal.simps [of n] decimal.simps [of m] digit_inj)
    next
      case False
      with small_n "1.prems" decimal_not_Nil [of "m div 10"] show ?thesis
        by (simp add: decimal.simps [of n] decimal.simps [of m])
    qed
  next
    case big_n: False
    show ?thesis
    proof (cases "m < 10")
      case True
      with big_n "1.prems" decimal_not_Nil [of "n div 10"] show ?thesis
        by (simp add: decimal.simps [of n] decimal.simps [of m])
    next
      case False
      with big_n "1.prems" have eq: "decimal (n div 10) = decimal (m div 10)"
        and dg: "digit (n mod 10) = digit (m mod 10)"
        by (simp_all add: decimal.simps [of n] decimal.simps [of m])
      from "1.IH" [OF big_n eq] have "n div 10 = m div 10" .
      moreover from dg have "n mod 10 = m mod 10"
        by (intro digit_inj) simp_all
      ultimately show ?thesis
        by (metis div_mult_mod_eq)
    qed
  qed
qed

lemma split_at_underscore:
  "CHR ''_'' \<notin> set a \<Longrightarrow> CHR ''_'' \<notin> set b \<Longrightarrow>
   a @ CHR ''_'' # s = b @ CHR ''_'' # t \<Longrightarrow> a = b \<and> s = t"
proof (induction a arbitrary: b)
  case Nil
  then show ?case by (cases b) auto
next
  case (Cons x a)
  then show ?case by (cases b) auto
qed

lemma new_id_eq_iff:
  "new_id n r = new_id m s \<longleftrightarrow> n = m \<and> substr 2 9 r = substr 2 9 s"
proof
  assume "new_id n r = new_id m s"
  then have "decimal n @ CHR ''_'' # substr 2 9 r = decimal m @ CHR ''_'' # substr 2 9 s"
    by (simp add: new_id_def)
  then have "decimal n = decimal m \<and> substr 2 9 r = substr 2 9 s"
    by (intro split_at_underscore underscore_notin_decimal)
  then show "n = m \<and> substr 2 9 r = substr 2 9 s"
    by (auto dest: decimal_inj)
next
  assume "n = m \<and> substr 2 9 r = substr 2 9 s"
  then show "new_id n r = new_id m s" by (simp add: new_id_def)
qed

subsection \<open>Creation\<close>

lemma createRecord_eq:
  "getStoredRecords st = Inr (Elements es) \<Longrightarrow>
   createRecord x now rnd st =
     (if setItem_rejects st then (Inl (Error ''Failed to save data''), st)
      else (Inr (newRecord x now rnd),
            st\<lparr>item := Some (Array_text (es @ [Rec (newRecord x now rnd)]))\<rparr>))"
  by (simp add: createRecord_def saveRecords_eq)

lemma newRecord_fields:
  "artistName (newRecord x now rnd) = (case p_artistName x of None \<Rightarrow> '''' | Some s \<Rightarrow> s)"
  "albumName (newRecord x now rnd) = (case p_albumName x of None \<Rightarrow> '''' | Some s \<Rightarrow> s)"
  "serialNumber (newRecord x now rnd) = (case p_serialNumber x of None \<Rightarrow> '''' | Some s \<Rightarrow> s)"
  "matrixRunout (newRecord x now rnd) = (case p_matrixRunout x of None \<Rightarrow> '''' | Some s \<Rightarrow> s)"
  "imageUrl (newRecord x now rnd) =
     (case p_imageUrl x of None \<Rightarrow> None | Some s \<Rightarrow> if s = '''' then None else Some s)"
  "year (newRecord x now rnd) = read_prop (p_year x)"
  "country (newRecord x now rnd) = read_prop (p_country x)"
  "genre (newRecord x now rnd) = read_prop (p_genre x)"
  "style (newRecord x now rnd) = read_prop (p_style x)"
  "label (newRecord x now rnd) = read_prop (p_label x)"
  "format (newRecord x now rnd) = read_prop (p_format x)"
  "discogsId (newRecord x now rnd) = read_prop (p_discogsId x)"
  "discogsUrl (newRecord x now rnd) = read_prop (p_discogsUrl x)"
  "record_id (newRecord x now rnd) = new_id now rnd"
  "createdAt (newRecord x now rnd) = now"
  "updatedAt (newRecord x now rnd) = now"
  by (simp_all add: newRecord_def or_string_def or_option_def split: option.splits)

lemma createRecord_keeps_flag:
  "setItem_rejects (snd (createRecord x now rnd st)) = setItem_rejects st"
proof (cases "getStoredRecords st")
  case (Inl e)
  then show ?thesis by (simp add: getStoredRecords_Inr)
next
  case (Inr v)
  then show ?thesis
    by (cases v) (simp_all add: createRecord_def saveRecords_eq)
qed

lemma createRecord_keeps_array:
  assumes "getStoredRecords st = Inr (Elements es)"
  shows "\<exists>es'. getStoredRecords (snd (createRecord x now rnd st)) = Inr (Elements es')"
  using assms by (simp add: createRecord_eq getStoredRecords_written)

lemma createRecord_result:
  "getStoredRecords st = Inr (Elements es) \<Longrightarrow> \<not> setItem_rejects st \<Longrightarrow>
   fst (createRecord x now rnd st) = Inr (newRecord x now rnd)"
  by (simp add: createRecord_eq)

lemma createRecords_results:
  "getStoredRecords st = Inr (Elements es) \<Longrightarrow> \<not> setItem_rejects st \<Longrightarrow>
   fst (createRecords calls st) = map (\<lambda>(x, now, rnd). Inr (newRecord x now rnd)) calls"
proof (induction calls arbitrary: st es)
  case Nil
  then show ?case by simp
next
  case (Cons c calls)
  obtain x now rnd where c: "c = (x, now, rnd)" by (cases c) auto
  obtain res st' where r: "createRecord x now rnd st = (res, st')"
    by (cases "createRecord x now rnd st") auto
  from r Cons.prems have res: "res = Inr (newRecord x now rnd)"
    using createRecord_result [of st es x now rnd] by simp
  from r Cons.prems have w: "\<not> setItem_rejects st'"
    using createRecord_keeps_flag [of x now rnd st] by simp
  from r createRecord_keeps_array [OF Cons.prems(1), of x now rnd]
  obtain es' where a: "getStoredRecords st' = Inr (Elements es')" by auto
  obtain ress st'' where rr: "createRecords calls st' = (ress, st'')"
    by (cases "createRecords calls st'") auto
  from Cons.IH [OF a w] have ih: "ress = map (\<lambda>(x, now, rnd). Inr (newRecord x now rnd)) calls"
    by (simp only: rr fst_conv)
  show ?case
    by (simp add: c r rr res ih)
qed

lemma distinct_new_ids:
  "distinct (map (\<lambda>(x, now, rnd). (now, substr 2 9 rnd)) calls) \<Longrightarrow>
   distinct (map (\<lambda>(x, now, rnd). new_id now rnd) calls)"
proof (induction calls)
  case Nil
  then show ?case by simp
next
  case (Cons c calls)
  obtain x now rnd where c: "c = (x, now, rnd)" by (cases c) auto
  from Cons.prems c have notin: "(now, substr 2 9 rnd) \<notin> (\<lambda>(x, now, rnd). (now, substr 2 9 rnd)) ` set calls"
    and d: "distinct (map (\<lambda>(x, now, rnd). (now, substr 2 9 rnd)) calls)"
    by simp_all
  have "new_id now rnd \<notin> (\<lambda>(x, now, rnd). new_id now rnd) ` set calls"
  proof
    assume "new_id now rnd \<in> (\<lambda>(x, now, rnd). new_id now rnd) ` set calls"
    then obtain x' now' rnd' where m: "(x', now', rnd') \<in> set calls" "new_id now rnd = new_id now' rnd'"
      by auto
    from m(2) have "now = now' \<and> substr 2 9 rnd = substr 2 9 rnd'"
      by (simp add: new_id_eq_iff)
    with m(1) have "(now, substr 2 9 rnd) \<in> (\<lambda>(x, now, rnd). (now, substr 2 9 rnd)) ` set calls"
      by force
    with notin show False by simp
  qed
  with Cons.IH [OF d] show ?case by (simp add: c)
qed

subsection \<open>Update and deletion\<close>

lemma updateRecord_eq:
  assumes "getStoredRecords st = Inr (Records rs)"
  shows "updateRecord i u now st =
     (case find (\<lambda>r. record_id r = i) rs of
        None \<Rightarrow> (Inl (Error ''Record not found''), st)
      | Some r \<Rightarrow>
          if setItem_rejects st then (Inl (Error ''Failed to save data''), st)
          else (Inr (Rec (merge_updates r u now)),
                st\<lparr>item := Some (Array_text (map Rec
                       (rs[length (takeWhile (\<lambda>q. record_id q \<noteq> i) rs) := merge_updates r u now])))\<rparr>))"
proof (cases "find (\<lambda>r. record_id r = i) rs")
  case None
  with assms show ?thesis
    by (simp add: updateRecord_def findIndex_Recs_none)
next
  case (Some r)
  let ?k = "length (takeWhile (\<lambda>q. record_id q \<noteq> i) rs)"
  from first_position [OF Some] have k: "?k < length rs" "rs ! ?k = r" by simp_all
  have p: "patch (Rec r) u now = Rec (merge_updates r u now)"
    by (simp add: patch_def)
  show ?thesis
    using assms Some k
    by (simp add: updateRecord_def findIndex_Recs_some [OF Some] Let_def p map_update saveRecords_eq)
qed


lemma merge_updates_identity:
  "record_id (merge_updates r u now) = (case u_id u of None \<Rightarrow> record_id r | Some v \<Rightarrow> v)"
  "createdAt (merge_updates r u now) = (case u_createdAt u of None \<Rightarrow> createdAt r | Some v \<Rightarrow> v)"
  "imageUrl (merge_updates r u now) = (case u_imageUrl u of None \<Rightarrow> imageUrl r | Some v \<Rightarrow> v)"
  by (simp_all add: merge_updates_def spread_def)


lemma getRecord_eq:
  "getStoredRecords st = Inr (Records rs) \<Longrightarrow>
   getRecord i st =
     (case find (\<lambda>r. record_id r = i) rs of
        None \<Rightarrow> Inl (Error ''Record not found'')
      | Some r \<Rightarrow> Inr (Rec r))"
  by (simp add: getRecord_def find_js_Recs split: option.splits)

lemma map_update_same:
  "k < length xs \<Longrightarrow> f y = f (xs ! k) \<Longrightarrow> map f (xs[k := y]) = map f xs"
  by (simp add: map_update list_update_same_conv)

subsection \<open>The lookup client and the orchestration\<close>

lemma request_unconfigured:
  "\<not> isConfigured token \<Longrightarrow>
   request token endpoint params net =
     (Inl (Error ''Discogs API not configured. Please provide authentication credentials.''), net)"
  by (simp add: request_def)

lemma request_configured:
  "isConfigured token \<Longrightarrow>
   fst (request token endpoint params net) =
     request_catch (request_try (respond net
        \<lparr> url = baseUrl @ endpoint_path endpoint,
          searchParams = (case params of None \<Rightarrow> [] | Some ps \<Rightarrow> ps),
          http_method = ''GET'',
          headers = getAuthHeaders token \<rparr>))"
  by (simp add: request_def fetch_def Let_def)

lemma read_prop_Some: "read_prop (Some v) = v"
  by (simp add: read_prop_def)

lemma or_string_empty: "or_string a '''' = (case a of None \<Rightarrow> '''' | Some s \<Rightarrow> s)"
  by (simp add: or_string_def split: option.splits)

lemma handleSelectRelease_eq:
  "getStoredRecords st = Inr (Elements es) \<Longrightarrow>
   handleSelectRelease release now rnd st =
     (if setItem_rejects st then ((''Error'', ''Failed to add record to collection''), st)
      else ((''Success'', ''Record added to collection!''),
            st\<lparr>item := Some (Array_text (es @ [Rec (newRecord (release_input release) now rnd)]))\<rparr>))"
  by (simp add: handleSelectRelease_def createRecord_eq)

section \<open>The claims\<close>

subsection \<open>C1: creation and read-back\<close>

text \<open>
  C1, as the code has it. When the backing store holds a sequence of records, accepts
  the read and the write, and the generated id is not yet used in the store,
  \<open>createRecord x\<close> returns a record whose
  four mandatory text fields are those of \<open>x\<close>, with the empty string for a missing one;
  whose \<open>imageUrl\<close> is that of \<open>x\<close> when it is a non-empty string and \<^verbatim>\<open>null\<close> when it
  is missing or empty; whose enrichment fields are what reading them from \<open>x\<close> gives
  (\<^verbatim>\<open>undefined\<close> stays \<^verbatim>\<open>undefined\<close>); and whose \<open>createdAt\<close> and \<open>updatedAt\<close> both are
  the clock reading. Afterwards \<open>getRecords\<close> gives the former sequence with the new
  record appended, which holds exactly one record equal to the returned one, and
  \<open>getRecord\<close> of its id returns it.
\<close>

theorem createRecord_round_trip:
  assumes rs: "getRecords st = Inr (Records rs)"
    and rd: "\<not> getItem_rejects st"
    and wr: "\<not> setItem_rejects st"
    and fresh: "new_id now rnd \<notin> record_id ` set rs"
  shows "\<exists>r st'.
    createRecord x now rnd st = (Inr r, st') \<and>
    artistName r = (case p_artistName x of None \<Rightarrow> '''' | Some s \<Rightarrow> s) \<and>
    albumName r = (case p_albumName x of None \<Rightarrow> '''' | Some s \<Rightarrow> s) \<and>
    serialNumber r = (case p_serialNumber x of None \<Rightarrow> '''' | Some s \<Rightarrow> s) \<and>
    matrixRunout r = (case p_matrixRunout x of None \<Rightarrow> '''' | Some s \<Rightarrow> s) \<and>
    imageUrl r = (case p_imageUrl x of None \<Rightarrow> None | Some s \<Rightarrow> if s = '''' then None else Some s) \<and>
    year r = read_prop (p_year x) \<and>
    country r = read_prop (p_country x) \<and>
    genre r = read_prop (p_genre x) \<and>
    style r = read_prop (p_style x) \<and>
    label r = read_prop (p_label x) \<and>
    format r = read_prop (p_format x) \<and>
    discogsId r = read_prop (p_discogsId x) \<and>
    discogsUrl r = read_prop (p_discogsUrl x) \<and>
    createdAt r = now \<and> updatedAt r = now \<and> createdAt r = updatedAt r \<and>
    getRecords st' = Inr (Records (rs @ [r])) \<and>
    count_list (rs @ [r]) r = 1 \<and>
    getRecord (record_id r) st' = Inr (Rec r)"
proof -
  let ?r = "newRecord x now rnd"
  let ?st = "st\<lparr>item := Some (Array_text (map Rec (rs @ [?r])))\<rparr>"
  from rs have g: "getStoredRecords st = Inr (Records rs)" by (simp add: getRecords_def)
  have c: "createRecord x now rnd st = (Inr ?r, ?st)"
    using wr by (simp add: createRecord_eq [OF g])
  have l: "getStoredRecords ?st = Inr (Records (rs @ [?r]))"
    using rd by (rule getStoredRecords_after_write)
  have other: "\<forall>q \<in> set rs. record_id q \<noteq> new_id now rnd"
    using fresh by (metis imageI)
  have notin: "?r \<notin> set rs"
    using other newRecord_fields(14) [of x now rnd] by metis
  have cnt: "count_list (rs @ [?r]) ?r = 1"
    using notin by (rule count_list_fresh)
  have "find (\<lambda>q. record_id q = new_id now rnd) rs = None"
    using other by (simp add: find_None_iff)
  then have f: "find (\<lambda>q. record_id q = new_id now rnd) (rs @ [?r]) = Some ?r"
    by (rule find_append_fresh) (simp add: newRecord_fields(14))
  have get: "getRecord (record_id ?r) ?st = Inr (Rec ?r)"
    by (simp only: getRecord_eq [OF l] newRecord_fields(14) f option.case)
  have lst: "getRecords ?st = Inr (Records (rs @ [?r]))"
    using l by (simp add: getRecords_def)
  show ?thesis
  proof (intro exI conjI)
    show "createRecord x now rnd st = (Inr ?r, ?st)" by (fact c)
    show "getRecords ?st = Inr (Records (rs @ [?r]))" by (fact lst)
    show "count_list (rs @ [?r]) ?r = 1" by (fact cnt)
    show "getRecord (record_id ?r) ?st = Inr (Rec ?r)" by (fact get)
  qed (simp_all add: newRecord_fields)
qed

text \<open>
  The theorem at a store that already holds two records: the input's artist and cover
  come back, the missing catalogue number is the empty string, and the new record is
  third in the list.
\<close>

theorem createRecord_round_trip_witness:
  "getRecords store_ab = Inr (Records [rec_a, rec_b]) \<and>
   \<not> getItem_rejects store_ab \<and> \<not> setItem_rejects store_ab \<and>
   new_id 2000 ''0.xyz'' \<notin> record_id ` set [rec_a, rec_b] \<and>
   (\<exists>r st'. createRecord input_a 2000 ''0.xyz'' store_ab = (Inr r, st') \<and>
      artistName r = ''Miles Davis'' \<and> serialNumber r = '''' \<and>
      imageUrl r = Some ''file:///cover.jpg'' \<and> year r = Some 1959 \<and> label r = None \<and>
      createdAt r = updatedAt r \<and>
      getRecords st' = Inr (Records [rec_a, rec_b, r]) \<and>
      getRecord (record_id r) st' = Inr (Rec r))"
proof -
  have h1: "getRecords store_ab = Inr (Records [rec_a, rec_b])"
    by (simp add: store_ab_def getRecords_def getStoredRecords_Inr)
  have h2: "\<not> getItem_rejects store_ab" and h3: "\<not> setItem_rejects store_ab"
    by (simp_all add: store_ab_def)
  have h4: "new_id 2000 ''0.xyz'' \<notin> record_id ` set [rec_a, rec_b]"
    by (simp add: rec_a_def rec_b_def new_id_def substr_def decimal.simps digit_def)
  from createRecord_round_trip [OF h1 h2 h3 h4, of input_a]
  obtain r st' where c: "createRecord input_a 2000 ''0.xyz'' store_ab = (Inr r, st')"
    and f: "artistName r = (case p_artistName input_a of None \<Rightarrow> '''' | Some s \<Rightarrow> s)"
      "serialNumber r = (case p_serialNumber input_a of None \<Rightarrow> '''' | Some s \<Rightarrow> s)"
      "imageUrl r = (case p_imageUrl input_a of None \<Rightarrow> None | Some s \<Rightarrow> if s = '''' then None else Some s)"
      "year r = read_prop (p_year input_a)"
      "label r = read_prop (p_label input_a)"
      "createdAt r = updatedAt r"
      "getRecords st' = Inr (Records ([rec_a, rec_b] @ [r]))"
      "getRecord (record_id r) st' = Inr (Rec r)"
    by blast
  from f have f': "artistName r = ''Miles Davis''" "serialNumber r = ''''"
      "imageUrl r = Some ''file:///cover.jpg''" "year r = Some 1959" "label r = None"
      "getRecords st' = Inr (Records [rec_a, rec_b, r])"
    by (simp_all add: input_a_def read_prop_def)
  show ?thesis
    using h1 h2 h3 h4 c f' f(6) f(8) by blast
qed

text \<open>
  C1 as stated fails where the input carries an empty \<open>imageUrl\<close>: the input's value is
  the empty string, the record's is \<^verbatim>\<open>null\<close>.
\<close>

theorem createRecord_blank_imageUrl_counterexample:
  "p_imageUrl input_blank_image = Some '''' \<and>
   map_sum id imageUrl (fst (createRecord input_blank_image 1000 ''0.abc'' store_empty)) = Inr None"
  by (simp add: input_blank_image_def store_empty_def createRecord_def getStoredRecords_Inr
        saveRecords_eq newRecord_def or_option_def)

subsection \<open>C2: update merges and stamps\<close>




subsection \<open>C3: identifiers\<close>

text \<open>
  C3, as the code has it. An id is made of the clock reading and of at most nine
  characters of the random text, and two ids are equal exactly when both parts are. So
  when the store holds an array and accepts the writes, creations in a row whose pairs
  of clock reading and kept random characters are pairwise distinct all return a
  record, and the ids of these records are pairwise distinct; within one clock tick it
  is the random part alone that tells two ids apart.
\<close>

theorem createRecords_distinct_ids:
  assumes arr: "getRecords st = Inr (Elements es)"
    and wr: "\<not> setItem_rejects st"
    and dist: "distinct (map (\<lambda>(x, now, rnd). (now, substr 2 9 rnd)) calls)"
  shows "fst (createRecords calls st) = map (\<lambda>(x, now, rnd). Inr (newRecord x now rnd)) calls \<and>
         distinct (map (\<lambda>(x, now, rnd). record_id (newRecord x now rnd)) calls) \<and>
         (new_id now1 rnd1 = new_id now2 rnd2 \<longleftrightarrow>
            now1 = now2 \<and> substr 2 9 rnd1 = substr 2 9 rnd2)"
proof -
  from arr have g: "getStoredRecords st = Inr (Elements es)" by (simp add: getRecords_def)
  have a: "fst (createRecords calls st) = map (\<lambda>(x, now, rnd). Inr (newRecord x now rnd)) calls"
    using g wr by (rule createRecords_results)
  have b: "distinct (map (\<lambda>(x, now, rnd). record_id (newRecord x now rnd)) calls)"
    using distinct_new_ids [OF dist] by (simp add: newRecord_fields)
  show ?thesis
    using a b new_id_eq_iff by blast
qed

text \<open>
  The theorem at three creations, two of them in the same millisecond with different
  random texts, the third a millisecond later with a random text used before.
\<close>

theorem createRecords_distinct_ids_witness:
  "getRecords store_empty = Inr (Elements []) \<and>
   \<not> setItem_rejects store_empty \<and>
   distinct (map (\<lambda>(x, now, rnd). (now, substr 2 9 rnd))
      [(input_a, 1700000000000 :: nat, ''0.k3j5h1x9q2a''), (input_a, 1700000000000, ''0.4fzyo82mvyr''),
       (input_blank_image, 1700000000001, ''0.4fzyo82mvyr'')]) \<and>
   map (map_sum id record_id)
     (fst (createRecords
        [(input_a, 1700000000000, ''0.k3j5h1x9q2a''), (input_a, 1700000000000, ''0.4fzyo82mvyr''),
         (input_blank_image, 1700000000001, ''0.4fzyo82mvyr'')] store_empty)) =
     [Inr ''record_1700000000000_k3j5h1x9q'', Inr ''record_1700000000000_4fzyo82mv'',
      Inr ''record_1700000000001_4fzyo82mv'']"
proof -
  have h0: "getRecords store_empty = Inr (Elements [])"
    by (simp add: store_empty_def getRecords_def getStoredRecords_Inr)
  have h1: "\<not> setItem_rejects store_empty" by (simp add: store_empty_def)
  have h2: "distinct (map (\<lambda>(x, now, rnd). (now, substr 2 9 rnd))
      [(input_a, 1700000000000 :: nat, ''0.k3j5h1x9q2a''), (input_a, 1700000000000, ''0.4fzyo82mvyr''),
       (input_blank_image, 1700000000001, ''0.4fzyo82mvyr'')])"
    by (simp add: substr_def)
  have ids: "new_id 1700000000000 ''0.k3j5h1x9q2a'' = ''record_1700000000000_k3j5h1x9q''"
    "new_id 1700000000000 ''0.4fzyo82mvyr'' = ''record_1700000000000_4fzyo82mv''"
    "new_id 1700000000001 ''0.4fzyo82mvyr'' = ''record_1700000000001_4fzyo82mv''"
    by (simp_all add: new_id_def substr_def decimal.simps digit_def)
  from createRecords_distinct_ids [OF h0 h1 h2]
  have "fst (createRecords
        [(input_a, 1700000000000, ''0.k3j5h1x9q2a''), (input_a, 1700000000000, ''0.4fzyo82mvyr''),
         (input_blank_image, 1700000000001, ''0.4fzyo82mvyr'')] store_empty) =
     map (\<lambda>(x, now, rnd). Inr (newRecord x now rnd))
        [(input_a, 1700000000000, ''0.k3j5h1x9q2a''), (input_a, 1700000000000, ''0.4fzyo82mvyr''),
         (input_blank_image, 1700000000001, ''0.4fzyo82mvyr'')]"
    by blast
  then have "map (map_sum id record_id)
     (fst (createRecords
        [(input_a, 1700000000000, ''0.k3j5h1x9q2a''), (input_a, 1700000000000, ''0.4fzyo82mvyr''),
         (input_blank_image, 1700000000001, ''0.4fzyo82mvyr'')] store_empty)) =
     [Inr ''record_1700000000000_k3j5h1x9q'', Inr ''record_1700000000000_4fzyo82mv'',
      Inr ''record_1700000000001_4fzyo82mv'']"
    by (simp add: newRecord_fields ids)
  then show ?thesis using h0 h1 h2 by blast
qed

text \<open>
  C3 as stated fails for two creations in one millisecond whose random texts differ only
  after the ninth kept character: both records get the same id.
\<close>

theorem createRecords_same_tick_counterexample:
  "map (map_sum id record_id)
     (fst (createRecords
        [(input_a, 1700000000000, ''0.k3j5h1x9q2a''), (input_a, 1700000000000, ''0.k3j5h1x9q7b'')]
        store_empty)) =
     [Inr ''record_1700000000000_k3j5h1x9q'', Inr ''record_1700000000000_k3j5h1x9q'']"
proof -
  have h0: "getStoredRecords store_empty = Inr (Elements [])"
    by (simp add: store_empty_def getStoredRecords_Inr)
  have h1: "\<not> setItem_rejects store_empty" by (simp add: store_empty_def)
  have ids: "new_id 1700000000000 ''0.k3j5h1x9q2a'' = ''record_1700000000000_k3j5h1x9q''"
    "new_id 1700000000000 ''0.k3j5h1x9q7b'' = ''record_1700000000000_k3j5h1x9q''"
    by (simp_all add: new_id_def substr_def decimal.simps digit_def)
  have "fst (createRecords
        [(input_a, 1700000000000, ''0.k3j5h1x9q2a''), (input_a, 1700000000000, ''0.k3j5h1x9q7b'')]
        store_empty) =
     map (\<lambda>(x, now, rnd). Inr (newRecord x now rnd))
        [(input_a, 1700000000000, ''0.k3j5h1x9q2a''), (input_a, 1700000000000, ''0.k3j5h1x9q7b'')]"
    using h0 h1 by (rule createRecords_results)
  then show ?thesis
    by (simp add: newRecord_fields ids)
qed

subsection \<open>C4: the configuration gate\<close>

text \<open>
  C4. For a client that is not configured (its token is \<^verbatim>\<open>null\<close>, or the empty string),
  each of the six operations fails with the configuration error, a plain \<^verbatim>\<open>Error\<close>
  whose message says that the API is not configured, and leaves the network as it
  was: no request is handed to \<^verbatim>\<open>fetch\<close>.
\<close>

theorem unconfigured_client_never_fetches:
  assumes "\<not> isConfigured token"
  shows "search token query type page perPage net =
           (Inl (Error ''Discogs API not configured. Please provide authentication credentials.''), net) \<and>
         searchRelease token artist album page net =
           (Inl (Error ''Discogs API not configured. Please provide authentication credentials.''), net) \<and>
         getRelease token releaseId net =
           (Inl (Error ''Discogs API not configured. Please provide authentication credentials.''), net) \<and>
         getMasterRelease token masterId net =
           (Inl (Error ''Discogs API not configured. Please provide authentication credentials.''), net) \<and>
         searchByBarcode token barcode net =
           (Inl (Error ''Discogs API not configured. Please provide authentication credentials.''), net) \<and>
         searchByCatalogNumber token catno page net =
           (Inl (Error ''Discogs API not configured. Please provide authentication credentials.''), net) \<and>
         issued (snd (search token query type page perPage net)) = issued net \<and>
         issued (snd (searchRelease token artist album page net)) = issued net \<and>
         issued (snd (getRelease token releaseId net)) = issued net \<and>
         issued (snd (getMasterRelease token masterId net)) = issued net \<and>
         issued (snd (searchByBarcode token barcode net)) = issued net \<and>
         issued (snd (searchByCatalogNumber token catno page net)) = issued net"
  using assms
  by (simp add: search_def searchRelease_def getRelease_def getMasterRelease_def
        searchByBarcode_def searchByCatalogNumber_def request_unconfigured)

text \<open>The theorem for the token \<^verbatim>\<open>null\<close>, on a network that has seen no request yet.\<close>

theorem unconfigured_client_never_fetches_witness:
  "\<not> isConfigured None \<and>
   getRelease None (Number ''249504'') net_404 =
     (Inl (Error ''Discogs API not configured. Please provide authentication credentials.''), net_404) \<and>
   issued (snd (search None ''Kind of Blue'' None None None net_404)) = [] \<and>
   issued (snd (searchByBarcode None ''074646493526'' net_404)) = []"
proof -
  have h: "\<not> isConfigured None" by (simp add: isConfigured_def)
  have e: "issued net_404 = []" by (simp add: net_404_def)
  show ?thesis
    using h e
      unconfigured_client_never_fetches [OF h, of "''Kind of Blue''" None None None net_404
        "''''" "''''" "Number ''249504''" "Number ''0''" "''074646493526''" "''''"]
    by simp
qed

subsection \<open>C5: the error policy of a lookup\<close>

text \<open>
  C5, as the code has it. Every operation of the client is one call of \<open>request\<close>. For
  a configured client, with \<open>req\<close> the request it hands to \<^verbatim>\<open>fetch\<close>:
  a response that is not \<open>ok\<close>, whose body parses as JSON, and whose \<^verbatim>\<open>message\<close> can be
  read and printed, is raised as one \<^verbatim>\<open>Error\<close> whose message holds the status code,
  the status text and the printed \<^verbatim>\<open>message\<close> of the body, empty when that is missing
  or falsy; in particular a body object with a text \<^verbatim>\<open>message\<close> gives that text. A body
  that does not parse gives the same error with an empty message. When \<^verbatim>\<open>fetch\<close>
  rejects with an \<^verbatim>\<open>Error\<close>, that error is raised again unchanged; only a rejection
  with a value that is no \<^verbatim>\<open>Error\<close> is replaced by the generic
  \<^verbatim>\<open>Failed to fetch data from Discogs API\<close>. A call returns data only when the response
  is \<open>ok\<close> and its body parses to that data.
\<close>

theorem request_error_policy:
  assumes conf: "isConfigured token"
    and req: "req = \<lparr> url = baseUrl @ endpoint_path endpoint,
                      searchParams = (case params of None \<Rightarrow> [] | Some ps \<Rightarrow> ps),
                      http_method = ''GET'',
                      headers = getAuthHeaders token \<rparr>"
  shows "(respond net req = Inr response \<and> \<not> ok response \<and> json_body response = Inr body \<and>
            get_message body = Inr m \<and> message_or_empty m = Inr printed_message \<longrightarrow>
            fst (request token endpoint params net) =
              Inl (Error (''Discogs API error: '' @ decimal (status response) @ '' '' @
                          statusText response @ ''. '' @ printed_message))) \<and>
         (respond net req = Inr response \<and> \<not> ok response \<and> json_body response = Inr (JObj ms) \<and>
            map_of (rev ms) ''message'' = Some (JStr msg) \<longrightarrow>
            fst (request token endpoint params net) =
              Inl (Error (''Discogs API error: '' @ decimal (status response) @ '' '' @
                          statusText response @ ''. '' @ msg))) \<and>
         (respond net req = Inr response \<and> \<not> ok response \<and> json_body response = Inl e \<longrightarrow>
            fst (request token endpoint params net) =
              Inl (Error (''Discogs API error: '' @ decimal (status response) @ '' '' @
                          statusText response @ ''. ''))) \<and>
         (respond net req = Inl e \<and> instanceof_Error e \<longrightarrow>
            fst (request token endpoint params net) = Inl e) \<and>
         (respond net req = Inl e \<and> \<not> instanceof_Error e \<longrightarrow>
            fst (request token endpoint params net) =
              Inl (Error ''Failed to fetch data from Discogs API'')) \<and>
         (fst (request token endpoint params net) = Inr v \<longrightarrow>
            (\<exists>response'. respond net req = Inr response' \<and> ok response' \<and>
                          json_body response' = Inr v))"
proof -
  have r: "fst (request token endpoint params net) = request_catch (request_try (respond net req))"
    unfolding req using conf by (rule request_configured)
  have a: "fst (request token endpoint params net) =
              Inl (Error (''Discogs API error: '' @ decimal (status response) @ '' '' @
                          statusText response @ ''. '' @ printed_message))"
    if "respond net req = Inr response \<and> \<not> ok response \<and> json_body response = Inr body \<and>
            get_message body = Inr m \<and> message_or_empty m = Inr printed_message"
    using that by (simp add: r request_try_def request_catch_def instanceof_Error_def)
  have b: "fst (request token endpoint params net) =
              Inl (Error (''Discogs API error: '' @ decimal (status response) @ '' '' @
                          statusText response @ ''. '' @ msg))"
    if "respond net req = Inr response \<and> \<not> ok response \<and> json_body response = Inr (JObj ms) \<and>
            map_of (rev ms) ''message'' = Some (JStr msg)"
    using that
    by (simp add: r request_try_def request_catch_def instanceof_Error_def get_message_def
          message_or_empty_def truthy_def)
  have c: "fst (request token endpoint params net) =
              Inl (Error (''Discogs API error: '' @ decimal (status response) @ '' '' @
                          statusText response @ ''. ''))"
    if "respond net req = Inr response \<and> \<not> ok response \<and> json_body response = Inl e"
    using that
    by (simp add: r request_try_def request_catch_def instanceof_Error_def get_message_def
          message_or_empty_def)
  have d: "fst (request token endpoint params net) = Inl e"
    if "respond net req = Inl e \<and> instanceof_Error e"
    using that by (simp add: r request_try_def request_catch_def)
  have f: "fst (request token endpoint params net) = Inl (Error ''Failed to fetch data from Discogs API'')"
    if "respond net req = Inl e \<and> \<not> instanceof_Error e"
    using that by (simp add: r request_try_def request_catch_def)
  have g: "\<exists>response'. respond net req = Inr response' \<and> ok response' \<and> json_body response' = Inr v"
    if "fst (request token endpoint params net) = Inr v"
    using that
    by (auto simp: r request_try_def request_catch_def Let_def
          split: sum.splits if_splits)
  show ?thesis using a b c d f g by blast
qed

text \<open>
  The theorem for a configured client: a 404 with a JSON message, a 404 with a body
  that is not JSON, and a rejection with a value that is no \<^verbatim>\<open>Error\<close>.
\<close>

theorem request_error_policy_witness:
  "isConfigured (Some ''tok'') \<and>
   fst (request (Some ''tok'') (Releases (Number ''249504'')) None net_404) =
     Inl (Error ''Discogs API error: 404 Not Found. Release not found.'') \<and>
   fst (request (Some ''tok'') (Releases (Number ''249504'')) None net_404_html) =
     Inl (Error ''Discogs API error: 404 Not Found. '') \<and>
   fst (request (Some ''tok'') (Releases (Number ''249504'')) None net_odd) =
     Inl (Error ''Failed to fetch data from Discogs API'')"
proof -
  have conf: "isConfigured (Some ''tok'')" by (simp add: isConfigured_def)
  have d: "decimal 404 = ''404''" by (simp add: decimal.simps digit_def)
  have a: "fst (request (Some ''tok'') (Releases (Number ''249504'')) None net_404) =
     Inl (Error ''Discogs API error: 404 Not Found. Release not found.'')"
    using request_error_policy [OF conf refl, where net = net_404 and endpoint = "Releases (Number ''249504'')"
        and params = None and response = response_404
        and ms = "[(''message'', JStr ''Release not found.'')]" and msg = "''Release not found.''"]
    by (simp add: net_404_def response_404_def d)
  have b: "fst (request (Some ''tok'') (Releases (Number ''249504'')) None net_404_html) =
     Inl (Error ''Discogs API error: 404 Not Found. '')"
    using request_error_policy [OF conf refl, where net = net_404_html and endpoint = "Releases (Number ''249504'')"
        and params = None and response = response_404_html
        and e = "Err ''SyntaxError'' ''JSON Parse error: Unexpected token: <''"]
    by (simp add: net_404_html_def response_404_html_def d)
  have c: "fst (request (Some ''tok'') (Releases (Number ''249504'')) None net_odd) =
     Inl (Error ''Failed to fetch data from Discogs API'')"
    using request_error_policy [OF conf refl, where net = net_odd and endpoint = "Releases (Number ''249504'')"
        and params = None and e = Non_Error]
    by (simp add: net_odd_def instanceof_Error_def)
  show ?thesis using conf a b c by blast
qed

text \<open>
  C5 as stated fails for the network failure itself: \<^verbatim>\<open>fetch\<close> rejects with a
  \<^verbatim>\<open>TypeError\<close>, and the call raises that \<^verbatim>\<open>TypeError\<close>, not the generic error.
\<close>

theorem request_network_failure_counterexample:
  "fst (request (Some ''tok'') (Releases (Number ''249504'')) None net_down) =
     Inl (Err ''TypeError'' ''Network request failed'')"
proof -
  have conf: "isConfigured (Some ''tok'')" by (simp add: isConfigured_def)
  show ?thesis
    by (simp add: request_configured [OF conf] net_down_def request_try_def request_catch_def
          instanceof_Error_def)
qed

text \<open>
  Where the \<^verbatim>\<open>message\<close> cannot be read or printed, the \<^verbatim>\<open>TypeError\<close> of the read or of
  the conversion leaves the \<^verbatim>\<open>try\<close> block in place of the status-based error.
\<close>

lemma request_unreadable_message:
  "fst (request (Some ''tok'') (Releases (Number ''249504'')) None net_404_null) = Inl (Engine ''TypeError'')"
  "fst (request (Some ''tok'') (Releases (Number ''249504'')) None net_404_object) = Inl (Engine ''TypeError'')"
proof -
  have conf: "isConfigured (Some ''tok'')" by (simp add: isConfigured_def)
  show "fst (request (Some ''tok'') (Releases (Number ''249504'')) None net_404_null) = Inl (Engine ''TypeError'')"
    by (simp add: request_configured [OF conf] net_404_null_def request_try_def request_catch_def
          get_message_def instanceof_Error_def)
  show "fst (request (Some ''tok'') (Releases (Number ''249504'')) None net_404_object) = Inl (Engine ''TypeError'')"
    by (simp add: request_configured [OF conf] net_404_object_def request_try_def request_catch_def
          get_message_def message_or_empty_def truthy_def instanceof_Error_def)
qed

subsection \<open>C6: reading fails open\<close>

text \<open>
  C6. \<open>getRecords\<close> never raises, whatever the state of the backing slot. A rejected
  read, a missing slot, an empty text and a text that does not parse all give the
  empty sequence; a stored sequence of records comes back whole and in its stored
  order. Any other text that parses comes back as the value it parses to, array or
  not, without a check and without a raise.
\<close>

theorem getRecords_fail_open:
  "(\<exists>v. getRecords st = Inr v) \<and>
   (getItem_rejects st \<or> item st = None \<or> item st = Some Blank \<or> item st = Some Garbage
      \<longrightarrow> getRecords st = Inr (Elements [])) \<and>
   (\<not> getItem_rejects st \<and> item st = Some (Array_text (map Rec rs)) \<longrightarrow>
      getRecords st = Inr (Records rs)) \<and>
   (\<not> getItem_rejects st \<and> item st = Some (Array_text es) \<longrightarrow> getRecords st = Inr (Elements es)) \<and>
   (\<not> getItem_rejects st \<and> item st = Some (Scalar_text v) \<longrightarrow> getRecords st = Inr (Scalar v))"
  by (auto simp: getRecords_def getStoredRecords_Inr)

text \<open>
  The theorem at a slot that does not parse, at a slot of two records, and at a slot
  holding the text \<^verbatim>\<open>null\<close>.
\<close>

theorem getRecords_fail_open_witness:
  "item store_garbage = Some Garbage \<and> getRecords store_garbage = Inr (Elements []) \<and>
   \<not> getItem_rejects store_ab \<and> item store_ab = Some (Array_text (map Rec [rec_a, rec_b])) \<and>
   getRecords store_ab = Inr (Records [rec_a, rec_b]) \<and>
   \<not> getItem_rejects store_null \<and> item store_null = Some (Scalar_text Null_value) \<and>
   getRecords store_null = Inr (Scalar Null_value)"
proof -
  have g: "item store_garbage = Some Garbage"
    by (simp add: store_garbage_def)
  have a: "\<not> getItem_rejects store_ab \<and> item store_ab = Some (Array_text (map Rec [rec_a, rec_b]))"
    by (simp add: store_ab_def)
  have n: "\<not> getItem_rejects store_null \<and> item store_null = Some (Scalar_text Null_value)"
    by (simp add: store_null_def)
  from g getRecords_fail_open [of store_garbage]
  have g': "getRecords store_garbage = Inr (Elements [])" by blast
  from a getRecords_fail_open [of store_ab "[rec_a, rec_b]"]
  have a': "getRecords store_ab = Inr (Records [rec_a, rec_b])" by blast
  from n getRecords_fail_open [where st = store_null and v = Null_value]
  have n': "getRecords store_null = Inr (Scalar Null_value)" by blast
  show ?thesis using g a n g' a' n' by blast
qed

subsection \<open>C7: unknown ids\<close>




subsection \<open>C8: deletion\<close>




subsection \<open>C9: from a release to a record\<close>

text \<open>
  C9. When the backing store holds a sequence of records and accepts the read and the
  write, accepting a release
  appends one record \<open>r\<close> to the collection, built by \<open>createRecord\<close> from the mapped
  input: the first artist's name (empty without artists) is \<open>artistName\<close>, the title is
  \<open>albumName\<close>, the first label's catalogue number is \<open>serialNumber\<close>, the value of the
  first identifier of type \<^verbatim>\<open>Matrix / Runout\<close> (empty without one) is \<open>matrixRunout\<close>;
  year, country, genres, styles, the first label's name, the first format's name, the
  release id and the URI pass through; the cover is the first image's full-size URI,
  else its thumbnail URI, else it is left unset.
\<close>

theorem handleSelectRelease_mapping:
  assumes rs: "getRecords st = Inr (Records rs)"
    and rd: "\<not> getItem_rejects st"
    and wr: "\<not> setItem_rejects st"
  shows "\<exists>r st'.
    handleSelectRelease release now rnd st = ((''Success'', ''Record added to collection!''), st') \<and>
    getRecords st' = Inr (Records (rs @ [r])) \<and>
    r = newRecord (release_input release) now rnd \<and>
    artistName r = (case release_artists release of [] \<Rightarrow> '''' | a # _ \<Rightarrow> artist_name a) \<and>
    albumName r = release_title release \<and>
    serialNumber r = (case release_labels release of [] \<Rightarrow> '''' | l # _ \<Rightarrow> label_catno l) \<and>
    matrixRunout r =
      (case release_identifiers release of
         None \<Rightarrow> ''''
       | Some ids \<Rightarrow>
           (case find (\<lambda>i. identifier_type i = ''Matrix / Runout'') ids of
              None \<Rightarrow> ''''
            | Some i \<Rightarrow> identifier_value i)) \<and>
    year r = release_year release \<and>
    country r = release_country release \<and>
    genre r = release_genres release \<and>
    style r = release_styles release \<and>
    label r = (case release_labels release of [] \<Rightarrow> None | l # _ \<Rightarrow> Some (label_name l)) \<and>
    format r = (case release_formats release of [] \<Rightarrow> None | f # _ \<Rightarrow> Some (format_name f)) \<and>
    discogsId r = Some (release_id release) \<and>
    discogsUrl r = release_uri release \<and>
    p_imageUrl (release_input release) =
      (case release_images release of
         None \<Rightarrow> None
       | Some [] \<Rightarrow> None
       | Some (img # _) \<Rightarrow>
           if image_uri img \<noteq> '''' then Some (image_uri img)
           else if image_uri150 img \<noteq> '''' then Some (image_uri150 img)
           else None) \<and>
    imageUrl r = p_imageUrl (release_input release)"
proof -
  let ?r = "newRecord (release_input release) now rnd"
  let ?st = "st\<lparr>item := Some (Array_text (map Rec (rs @ [?r])))\<rparr>"
  from rs have g: "getStoredRecords st = Inr (Records rs)" by (simp add: getRecords_def)
  have h: "handleSelectRelease release now rnd st = ((''Success'', ''Record added to collection!''), ?st)"
    using wr by (simp add: handleSelectRelease_eq [OF g])
  have l: "getRecords ?st = Inr (Records (rs @ [?r]))"
    using rd by (simp add: getRecords_def getStoredRecords_written)
  have img: "p_imageUrl (release_input release) =
      (case release_images release of
         None \<Rightarrow> None
       | Some [] \<Rightarrow> None
       | Some (img # _) \<Rightarrow>
           if image_uri img \<noteq> '''' then Some (image_uri img)
           else if image_uri150 img \<noteq> '''' then Some (image_uri150 img)
           else None)"
    by (simp add: release_input_def coverImageUrl_def or_option_def first_opt_def first_def
          split: option.splits list.splits)
  have img': "imageUrl ?r = p_imageUrl (release_input release)"
    unfolding newRecord_fields img by (simp split: option.splits list.splits)
  have f1: "artistName ?r = (case release_artists release of [] \<Rightarrow> '''' | a # _ \<Rightarrow> artist_name a)"
    by (simp add: newRecord_fields release_input_def or_string_empty first_def split: list.splits)
  have f2: "albumName ?r = release_title release"
    by (simp add: newRecord_fields release_input_def or_string_empty)
  have f3: "serialNumber ?r = (case release_labels release of [] \<Rightarrow> '''' | l # _ \<Rightarrow> label_catno l)"
    by (simp add: newRecord_fields release_input_def or_string_empty first_def split: list.splits)
  have f4: "matrixRunout ?r =
      (case release_identifiers release of
         None \<Rightarrow> ''''
       | Some ids \<Rightarrow>
           (case find (\<lambda>i. identifier_type i = ''Matrix / Runout'') ids of
              None \<Rightarrow> ''''
            | Some i \<Rightarrow> identifier_value i))"
    by (simp add: newRecord_fields release_input_def or_string_empty matrix_runout_value_def
          split: option.splits)
  have f5: "year ?r = release_year release" "country ?r = release_country release"
    "genre ?r = release_genres release" "style ?r = release_styles release"
    "discogsId ?r = Some (release_id release)" "discogsUrl ?r = release_uri release"
    by (simp_all add: newRecord_fields release_input_def read_prop_Some)
  have f6: "label ?r = (case release_labels release of [] \<Rightarrow> None | l # _ \<Rightarrow> Some (label_name l))"
    "format ?r = (case release_formats release of [] \<Rightarrow> None | f # _ \<Rightarrow> Some (format_name f))"
    by (simp_all add: newRecord_fields release_input_def read_prop_Some first_def split: list.splits)
  show ?thesis
  proof (intro exI conjI)
    show "handleSelectRelease release now rnd st = ((''Success'', ''Record added to collection!''), ?st)"
      by (fact h)
    show "getRecords ?st = Inr (Records (rs @ [?r]))" by (fact l)
    show "?r = newRecord (release_input release) now rnd" by simp
  qed (fact f1 f2 f3 f4 f5 f6 img img')+
qed

text \<open>
  The theorem at a release with two matrix identifiers and an image that has a
  thumbnail only, accepted into a store of two records.
\<close>

theorem handleSelectRelease_mapping_witness:
  "getRecords store_ab = Inr (Records [rec_a, rec_b]) \<and>
   \<not> getItem_rejects store_ab \<and> \<not> setItem_rejects store_ab \<and>
   (\<exists>r st'.
      handleSelectRelease kind_of_blue 2000 ''0.xyz'' store_ab =
        ((''Success'', ''Record added to collection!''), st') \<and>
      getRecords st' = Inr (Records [rec_a, rec_b, r]) \<and>
      artistName r = ''Miles Davis'' \<and> albumName r = ''Kind of Blue'' \<and>
      serialNumber r = ''CL 1355'' \<and> matrixRunout r = ''XLP 47324'' \<and>
      year r = Some 1959 \<and> label r = Some ''Columbia'' \<and> format r = Some ''Vinyl'' \<and>
      discogsId r = Some 249504 \<and>
      imageUrl r = Some ''https://img.example/150.jpg'')"
proof -
  have h1: "getRecords store_ab = Inr (Records [rec_a, rec_b])"
    by (simp add: store_ab_def getRecords_def getStoredRecords_Inr)
  have h2: "\<not> getItem_rejects store_ab" and h3: "\<not> setItem_rejects store_ab"
    by (simp_all add: store_ab_def)
  from handleSelectRelease_mapping [OF h1 h2 h3, of kind_of_blue 2000 "''0.xyz''"]
  obtain r st' where
    a: "handleSelectRelease kind_of_blue 2000 ''0.xyz'' store_ab =
          ((''Success'', ''Record added to collection!''), st')"
    and b: "getRecords st' = Inr (Records ([rec_a, rec_b] @ [r]))"
    and f: "artistName r = (case release_artists kind_of_blue of [] \<Rightarrow> '''' | a # _ \<Rightarrow> artist_name a)"
      "albumName r = release_title kind_of_blue"
      "serialNumber r = (case release_labels kind_of_blue of [] \<Rightarrow> '''' | l # _ \<Rightarrow> label_catno l)"
      "matrixRunout r =
        (case release_identifiers kind_of_blue of
           None \<Rightarrow> ''''
         | Some ids \<Rightarrow>
             (case find (\<lambda>i. identifier_type i = ''Matrix / Runout'') ids of
                None \<Rightarrow> ''''
              | Some i \<Rightarrow> identifier_value i))"
      "year r = release_year kind_of_blue"
      "label r = (case release_labels kind_of_blue of [] \<Rightarrow> None | l # _ \<Rightarrow> Some (label_name l))"
      "format r = (case release_formats kind_of_blue of [] \<Rightarrow> None | f # _ \<Rightarrow> Some (format_name f))"
      "discogsId r = Some (release_id kind_of_blue)"
    and i: "p_imageUrl (release_input kind_of_blue) =
        (case release_images kind_of_blue of
           None \<Rightarrow> None
         | Some [] \<Rightarrow> None
         | Some (img # _) \<Rightarrow>
             if image_uri img \<noteq> '''' then Some (image_uri img)
             else if image_uri150 img \<noteq> '''' then Some (image_uri150 img)
             else None)"
      "imageUrl r = p_imageUrl (release_input kind_of_blue)"
    by blast
  from f have f': "artistName r = ''Miles Davis''" "albumName r = ''Kind of Blue''"
      "serialNumber r = ''CL 1355''" "matrixRunout r = ''XLP 47324''"
      "year r = Some 1959" "label r = Some ''Columbia''" "format r = Some ''Vinyl''"
      "discogsId r = Some 249504"
    by (simp_all add: kind_of_blue_def)
  from i have i': "imageUrl r = Some ''https://img.example/150.jpg''"
    by (simp add: kind_of_blue_def)
  from b have b': "getRecords st' = Inr (Records [rec_a, rec_b, r])" by simp
  show ?thesis using h1 h2 h3 a b' f' i' by blast
qed

subsection \<open>C10: what an update leaves alone\<close>

text \<open>
  C10, as the code has it. After an \<open>updateRecord\<close> call on a store of records the
  sequence read back has the same length. For an id that no record has, and for a call
  that raises, it is the same sequence. For an id that some record has, every position
  other than that of the first record with the id holds the record it held, and a
  returned record sits at that position. The returned record keeps the id of the record
  it replaces when the updates name no \<open>id\<close>, its \<open>createdAt\<close> when they name no
  \<open>createdAt\<close>, and its \<open>imageUrl\<close> when they name no \<open>imageUrl\<close>; updates without these
  three names, as an object with only the properties of \<^verbatim>\<open>VinylData\<close> is, leave the
  ids, the \<open>createdAt\<close> and the \<open>imageUrl\<close> of the whole sequence as they were.
\<close>

theorem updateRecord_frame:
  assumes rs: "getRecords st = Inr (Records rs)"
    and upd: "updateRecord i u now st = (res, st')"
  shows "\<exists>rs'. getRecords st' = Inr (Records rs') \<and>
           length rs' = length rs \<and>
           (i \<notin> record_id ` set rs \<longrightarrow> rs' = rs \<and> res = Inl (Error ''Record not found'')) \<and>
           ((\<exists>e. res = Inl e) \<longrightarrow> rs' = rs) \<and>
           (i \<in> record_id ` set rs \<longrightarrow>
              (\<exists>k < length rs.
                 record_id (rs ! k) = i \<and> (\<forall>j < k. record_id (rs ! j) \<noteq> i) \<and>
                 (\<forall>j < length rs. j \<noteq> k \<longrightarrow> rs' ! j = rs ! j) \<and>
                 ((\<exists>e. res = Inl e) \<or> (\<exists>r'. res = Inr (Rec r'))) \<and>
                 (\<forall>r'. res = Inr (Rec r') \<longrightarrow>
                    rs' = rs[k := r'] \<and>
                    (u_id u = None \<longrightarrow> record_id r' = record_id (rs ! k)) \<and>
                    (u_createdAt u = None \<longrightarrow> createdAt r' = createdAt (rs ! k)) \<and>
                    (u_imageUrl u = None \<longrightarrow> imageUrl r' = imageUrl (rs ! k))))) \<and>
           (u_id u = None \<longrightarrow> map record_id rs' = map record_id rs) \<and>
           (u_createdAt u = None \<longrightarrow> map createdAt rs' = map createdAt rs) \<and>
           (u_imageUrl u = None \<longrightarrow> map imageUrl rs' = map imageUrl rs)"
proof -
  from rs have g: "getStoredRecords st = Inr (Records rs)" by (simp add: getRecords_def)
  let ?k = "length (takeWhile (\<lambda>q. record_id q \<noteq> i) rs)"
  show ?thesis
  proof (cases "find (\<lambda>q. record_id q = i) rs")
    case None
    with upd have r: "res = Inl (Error ''Record not found'')" "st' = st"
      by (simp_all add: updateRecord_eq [OF g])
    from None have absent: "i \<notin> record_id ` set rs"
      by (auto simp: find_None_iff)
    show ?thesis
    proof (intro exI [of _ rs] conjI impI)
      show "getRecords st' = Inr (Records rs)" using rs r by simp
      show "res = Inl (Error ''Record not found'')" by (fact r)
    next
      assume "i \<in> record_id ` set rs"
      with absent show "\<exists>k < length rs.
                 record_id (rs ! k) = i \<and> (\<forall>j < k. record_id (rs ! j) \<noteq> i) \<and>
                 (\<forall>j < length rs. j \<noteq> k \<longrightarrow> rs ! j = rs ! j) \<and>
                 ((\<exists>e. res = Inl e) \<or> (\<exists>r'. res = Inr (Rec r'))) \<and>
                 (\<forall>r'. res = Inr (Rec r') \<longrightarrow>
                    rs = rs[k := r'] \<and>
                    (u_id u = None \<longrightarrow> record_id r' = record_id (rs ! k)) \<and>
                    (u_createdAt u = None \<longrightarrow> createdAt r' = createdAt (rs ! k)) \<and>
                    (u_imageUrl u = None \<longrightarrow> imageUrl r' = imageUrl (rs ! k)))"
        by simp
    qed simp_all
  next
    case (Some r)
    from first_position [OF Some] have k: "?k < length rs" "rs ! ?k = r"
      "\<forall>j < ?k. record_id (rs ! j) \<noteq> i" by simp_all
    from Some have rid: "record_id r = i"
      by (auto simp: find_Some_iff)
    from k rid have present: "i \<in> record_id ` set rs"
      by (metis imageI nth_mem)
    show ?thesis
    proof (cases "setItem_rejects st")
      case True
      with Some upd have r: "res = Inl (Error ''Failed to save data'')" "st' = st"
        by (simp_all add: updateRecord_eq [OF g])
      show ?thesis
      proof (intro exI [of _ rs] conjI impI)
        show "getRecords st' = Inr (Records rs)" using rs r by simp
      next
        assume "i \<notin> record_id ` set rs"
        with present show "rs = rs" "res = Inl (Error ''Record not found'')" by simp_all
      next
        show "\<exists>k < length rs.
                 record_id (rs ! k) = i \<and> (\<forall>j < k. record_id (rs ! j) \<noteq> i) \<and>
                 (\<forall>j < length rs. j \<noteq> k \<longrightarrow> rs ! j = rs ! j) \<and>
                 ((\<exists>e. res = Inl e) \<or> (\<exists>r'. res = Inr (Rec r'))) \<and>
                 (\<forall>r'. res = Inr (Rec r') \<longrightarrow>
                    rs = rs[k := r'] \<and>
                    (u_id u = None \<longrightarrow> record_id r' = record_id (rs ! k)) \<and>
                    (u_createdAt u = None \<longrightarrow> createdAt r' = createdAt (rs ! k)) \<and>
                    (u_imageUrl u = None \<longrightarrow> imageUrl r' = imageUrl (rs ! k)))"
          using k rid r by (intro exI [of _ ?k]) simp
      qed simp_all
    next
      case False
      let ?m = "merge_updates r u now"
      from False Some upd have res: "res = Inr (Rec ?m)"
        and st': "st' = st\<lparr>item := Some (Array_text (map Rec (rs[?k := ?m])))\<rparr>"
        by (simp_all add: updateRecord_eq [OF g])
      from k(1) have "rs \<noteq> []" by auto
      with g have rd: "\<not> getItem_rejects st"
        using rejected_read_empty [of st "map Rec rs"] by auto
      have l: "getRecords st' = Inr (Records (rs[?k := ?m]))"
        using rd by (simp add: getRecords_def st' getStoredRecords_written)
      have m1: "map record_id (rs[?k := ?m]) = map record_id rs" if "u_id u = None"
        using k that by (intro map_update_same) (simp_all add: merge_updates_identity)
      have m2: "map createdAt (rs[?k := ?m]) = map createdAt rs" if "u_createdAt u = None"
        using k that by (intro map_update_same) (simp_all add: merge_updates_identity)
      have m3: "map imageUrl (rs[?k := ?m]) = map imageUrl rs" if "u_imageUrl u = None"
        using k that by (intro map_update_same) (simp_all add: merge_updates_identity)
      show ?thesis
      proof (intro exI [of _ "rs[?k := ?m]"] conjI impI)
        show "getRecords st' = Inr (Records (rs[?k := ?m]))" by (fact l)
        show "length (rs[?k := ?m]) = length rs" by simp
      next
        assume "i \<notin> record_id ` set rs"
        with present show "rs[?k := ?m] = rs" "res = Inl (Error ''Record not found'')" by simp_all
      next
        assume "\<exists>e. res = Inl e"
        with res show "rs[?k := ?m] = rs" by simp
      next
        show "\<exists>k < length rs.
                 record_id (rs ! k) = i \<and> (\<forall>j < k. record_id (rs ! j) \<noteq> i) \<and>
                 (\<forall>j < length rs. j \<noteq> k \<longrightarrow> rs[?k := ?m] ! j = rs ! j) \<and>
                 ((\<exists>e. res = Inl e) \<or> (\<exists>r'. res = Inr (Rec r'))) \<and>
                 (\<forall>r'. res = Inr (Rec r') \<longrightarrow>
                    rs[?k := ?m] = rs[k := r'] \<and>
                    (u_id u = None \<longrightarrow> record_id r' = record_id (rs ! k)) \<and>
                    (u_createdAt u = None \<longrightarrow> createdAt r' = createdAt (rs ! k)) \<and>
                    (u_imageUrl u = None \<longrightarrow> imageUrl r' = imageUrl (rs ! k)))"
          using k rid res by (intro exI [of _ ?k]) (simp add: merge_updates_identity)
      next
        assume "u_id u = None"
        then show "map record_id (rs[?k := ?m]) = map record_id rs" by (rule m1)
      next
        assume "u_createdAt u = None"
        then show "map createdAt (rs[?k := ?m]) = map createdAt rs" by (rule m2)
      next
        assume "u_imageUrl u = None"
        then show "map imageUrl (rs[?k := ?m]) = map imageUrl rs" by (rule m3)
      qed
    qed
  qed
qed

text \<open>
  The theorem at a store of two records, updating the year of the second: the first
  record stays, and the second keeps its id, its \<open>createdAt\<close> and its \<open>imageUrl\<close>.
\<close>

theorem updateRecord_frame_witness:
  "getRecords store_ab = Inr (Records [rec_a, rec_b]) \<and>
   ''record_1500_def'' \<in> record_id ` set [rec_a, rec_b] \<and>
   u_id updates_year = None \<and> u_createdAt updates_year = None \<and> u_imageUrl updates_year = None \<and>
   (\<exists>r' st'. updateRecord ''record_1500_def'' updates_year 3000 store_ab = (Inr (Rec r'), st') \<and>
      getRecords st' = Inr (Records [rec_a, r']) \<and>
      record_id r' = ''record_1500_def'' \<and> createdAt r' = 1500 \<and> imageUrl r' = None)"
proof -
  have h1: "getRecords store_ab = Inr (Records [rec_a, rec_b])"
    by (simp add: store_ab_def getRecords_def getStoredRecords_Inr)
  have i: "record_id rec_a = ''record_1000_abc''" "record_id rec_b = ''record_1500_def''"
    by (simp_all add: rec_a_def rec_b_def)
  have p: "''record_1500_def'' \<in> record_id ` set [rec_a, rec_b]"
    by (simp add: i)
  have n: "u_id updates_year = None" "u_createdAt updates_year = None" "u_imageUrl updates_year = None"
    by (simp_all add: updates_year_def)
  have g: "getStoredRecords store_ab = Inr (Records [rec_a, rec_b])"
    by (simp add: store_ab_def getStoredRecords_Inr)
  have w: "\<not> setItem_rejects store_ab"
    by (simp add: store_ab_def)
  obtain r' st' where u: "updateRecord ''record_1500_def'' updates_year 3000 store_ab = (Inr (Rec r'), st')"
    using w by (simp add: updateRecord_eq [OF g] i)
  from updateRecord_frame [OF h1 u] p obtain rs' k where
    a: "getRecords st' = Inr (Records rs')" and
    b: "k < length [rec_a, rec_b]" "record_id ([rec_a, rec_b] ! k) = ''record_1500_def''"
       "rs' = [rec_a, rec_b][k := r']"
       "u_id updates_year = None \<longrightarrow> record_id r' = record_id ([rec_a, rec_b] ! k)"
       "u_createdAt updates_year = None \<longrightarrow> createdAt r' = createdAt ([rec_a, rec_b] ! k)"
       "u_imageUrl updates_year = None \<longrightarrow> imageUrl r' = imageUrl ([rec_a, rec_b] ! k)"
    by blast
  from b(1) b(2) have k: "k = 1"
    by (cases k) (simp_all add: i)
  from b n k have c: "rs' = [rec_a, r']" "record_id r' = ''record_1500_def''"
    "createdAt r' = 1500" "imageUrl r' = None"
    by (simp_all add: rec_b_def)
  show ?thesis using h1 p n u a c by blast
qed

text \<open>
  C10 as stated fails for updates that name the identifying fields, which the parameter
  type does not prevent: with updates that are a whole record, the record stored under
  \<^verbatim>\<open>record_1000_abc\<close>, created at 1000 with a cover, comes back with the id
  \<^verbatim>\<open>record_1500_def\<close>, \<open>createdAt\<close> 1500 and no cover.
\<close>

theorem updateRecord_frame_counterexample:
  "record_id rec_a = ''record_1000_abc'' \<and> createdAt rec_a = 1000 \<and>
   imageUrl rec_a = Some ''file:///a.jpg'' \<and>
   fst (updateRecord ''record_1000_abc'' updates_whole_record 3000 store_ab) =
     Inr (Rec \<lparr> artistName = ''B'', albumName = ''Second'', serialNumber = '''', matrixRunout = '''',
                year = Some 1971, country = Some ''US'', genre = Some [''Rock''], style = None,
                label = None, format = None, discogsId = None, discogsUrl = None,
                record_id = ''record_1500_def'', imageUrl = None,
                createdAt = 1500, updatedAt = 3000 \<rparr>)"
proof -
  have g: "getStoredRecords store_ab = Inr (Records [rec_a, rec_b])"
    by (simp add: store_ab_def getStoredRecords_Inr)
  have w: "\<not> setItem_rejects store_ab"
    by (simp add: store_ab_def)
  have i: "record_id rec_a = ''record_1000_abc''" "createdAt rec_a = 1000"
    "imageUrl rec_a = Some ''file:///a.jpg''"
    by (simp_all add: rec_a_def)
  have f: "find (\<lambda>r. record_id r = ''record_1000_abc'') [rec_a, rec_b] = Some rec_a"
    by (simp add: i)
  have u: "fst (updateRecord ''record_1000_abc'' updates_whole_record 3000 store_ab) =
           Inr (Rec (merge_updates rec_a updates_whole_record 3000))"
    using w by (simp only: updateRecord_eq [OF g] f option.case if_False fst_conv)
  have m: "merge_updates rec_a updates_whole_record 3000 =
     \<lparr> artistName = ''B'', albumName = ''Second'', serialNumber = '''', matrixRunout = '''',
       year = Some 1971, country = Some ''US'', genre = Some [''Rock''], style = None,
       label = None, format = None, discogsId = None, discogsUrl = None,
       record_id = ''record_1500_def'', imageUrl = None,
       createdAt = 1500, updatedAt = 3000 \<rparr>"
    by (simp add: merge_updates_def spread_def updates_whole_record_def rec_a_def)
  have u': "fst (updateRecord ''record_1000_abc'' updates_whole_record 3000 store_ab) =
     Inr (Rec \<lparr> artistName = ''B'', albumName = ''Second'', serialNumber = '''', matrixRunout = '''',
                year = Some 1971, country = Some ''US'', genre = Some [''Rock''], style = None,
                label = None, format = None, discogsId = None, discogsUrl = None,
                record_id = ''record_1500_def'', imageUrl = None,
                createdAt = 1500, updatedAt = 3000 \<rparr>)"
    by (simp only: u m)
  show ?thesis
    using i u' by (intro conjI)
qed

end
